theory Spec2Isabelle
  imports Main
begin

section \<open>Data model of detectem's detector (core.py)\<close>

text \<open>
  The exceptions the detector can raise: a missing dictionary key, an index into an
  empty list, an attribute read on \<open>None\<close>, and the \<open>ValueError\<close> of
  \<open>urllib.parse.urljoin\<close> on a malformed URL.
\<close>

datatype error = KeyError | IndexError | AttributeError | ValueError

text \<open>
  Modelled from the spec: core.py imports \<open>RESOURCE_ENTRY\<close>, \<open>MAIN_ENTRY\<close> and
  \<open>INLINE_SCRIPT_ENTRY\<close> from settings.py, which declares the first two (as the strings
  'resource' and 'main') and not the third. The spec's classification is the enumeration
  MAIN, RESOURCE, INLINE_SCRIPT of three distinct values, which this datatype is.
\<close>

datatype entry_type = RESOURCE_ENTRY | MAIN_ENTRY | INLINE_SCRIPT_ENTRY

text \<open>
  Modelled from the spec: \<open>VERSION_TYPE\<close>, \<open>INDICATOR_TYPE\<close> and \<open>HINT_TYPE\<close> are
  declared in settings.py; \<open>GENERIC_TYPE\<close> is imported by core.py and is not declared
  there. The spec's Result type is the enumeration VERSION, INDICATOR, HINT, GENERIC.
\<close>

datatype result_type = VERSION_TYPE | INDICATOR_TYPE | HINT_TYPE | GENERIC_TYPE

type_synonym header = "string \<times> string"

text \<open>
  A har entry is a nested dictionary. The fields the detector reads are
  \<open>entry['request']['url']\<close>, \<open>entry['response']['url']\<close>,
  \<open>entry['response'].get('headers', [])\<close> (a list of name/value pairs, possibly absent),
  \<open>entry['response']['content']['text']\<close> and \<open>entry['detectem']['type']\<close>, the last
  one absent until \<open>_set_entry_type\<close> writes it.
\<close>

record entry =
  request_url :: string
  response_url :: string
  response_headers :: "header list option"
  content_text :: string
  detectem_type :: "entry_type option"

text \<open>The response of the rendering backend: \<open>response.get('har', [])\<close>,
  \<open>response.get('scripts', [])\<close> and \<open>response['softwares']\<close>.\<close>

record software =
  software_name :: string
  software_version :: string

record response =
  har :: "entry list option"
  scripts :: "string list option"
  softwares :: "software list"

text \<open>Python's truth test on an optional string: \<open>None\<close> and the empty string are false.\<close>

definition truthy :: "string option \<Rightarrow> bool" where
  "truthy v = (case v of None \<Rightarrow> False | Some s \<Rightarrow> s \<noteq> [])"

section \<open>Entry classification\<close>

definition set_entry_type :: "entry \<Rightarrow> entry_type \<Rightarrow> entry" where
  "set_entry_type e t = e\<lparr>detectem_type := Some t\<rparr>"

definition get_entry_type :: "entry \<Rightarrow> error + entry_type" where
  "get_entry_type e = (case detectem_type e of None \<Rightarrow> Inl KeyError | Some t \<Rightarrow> Inr t)"

text \<open>The nested \<open>get_location\<close> of \<open>_mark_main_entry\<close>: the value of the first header
  named Location, \<open>None\<close> when there is none.\<close>

fun get_location_headers :: "header list \<Rightarrow> string option" where
  "get_location_headers [] = None"
| "get_location_headers (h # hs) =
     (if fst h = ''Location'' then Some (snd h) else get_location_headers hs)"

text \<open>\<open>entry['response'].get('headers', [])\<close>.\<close>

definition header_list :: "entry \<Rightarrow> header list" where
  "header_list e = (case response_headers e of None \<Rightarrow> [] | Some hs \<Rightarrow> hs)"

definition get_location :: "entry \<Rightarrow> string option" where
  "get_location e = get_location_headers (header_list e)"

text \<open>
  The \<open>for ... else\<close> loop over \<open>entries[1:]\<close>: the first entry whose request URL is
  \<open>main_url\<close> is tagged MAIN and the loop breaks (\<open>Some\<close> of the updated list);
  \<open>None\<close> is the loop running to its end, where the \<open>else\<close> branch applies.
\<close>

fun mark_redirect_target :: "string \<Rightarrow> entry list \<Rightarrow> entry list option" where
  "mark_redirect_target main_url [] = None"
| "mark_redirect_target main_url (e # es) =
     (if request_url e = main_url then Some (set_entry_type e MAIN_ENTRY # es)
      else (case mark_redirect_target main_url es of
              None \<Rightarrow> None
            | Some es' \<Rightarrow> Some (e # es')))"

text \<open>
  \<open>_mark_main_entry\<close>. The entries of a har list are distinct dictionaries (they are parsed
  from JSON), so tagging in place is an update of the list, position by position.
  \<open>urllib.parse.urljoin\<close> is the standard library's and is a parameter; it raises
  on a malformed reference (\<open>ValueError\<close>), and nothing between the call and the
  constructor catches that. The inner \<open>get_url\<close> of the source reads
  \<open>entry['request']['url']\<close>.
\<close>

definition mark_main_entry :: "(string \<Rightarrow> string \<Rightarrow> error + string) \<Rightarrow> entry list \<Rightarrow> error + entry list" where
  "mark_main_entry urljoin entries =
     (case map (\<lambda>e. set_entry_type e RESOURCE_ENTRY) entries of
        [] \<Rightarrow> Inl IndexError
      | main_entry # rest \<Rightarrow>
          (case get_location main_entry of
             None \<Rightarrow> Inr (set_entry_type main_entry MAIN_ENTRY # rest)
           | Some main_location \<Rightarrow>
               if main_location = [] then Inr (set_entry_type main_entry MAIN_ENTRY # rest)
               else (case urljoin (request_url main_entry) main_location of
                       Inl err \<Rightarrow> Inl err
                     | Inr main_url \<Rightarrow>
                         (case mark_redirect_target main_url rest of
                            Some rest' \<Rightarrow> Inr (main_entry # rest')
                          | None \<Rightarrow> Inr (set_entry_type main_entry MAIN_ENTRY # rest)))))"

definition script_to_har_entry :: "string \<Rightarrow> string \<Rightarrow> entry" where
  "script_to_har_entry requested_url script =
     set_entry_type
       \<lparr>request_url = requested_url, response_url = requested_url,
        response_headers = None, content_text = script, detectem_type = None\<rparr>
       INLINE_SCRIPT_ENTRY"

text \<open>\<open>response.get('har', [])\<close> and \<open>response.get('scripts', [])\<close>.\<close>

definition har_list :: "response \<Rightarrow> entry list" where
  "har_list resp = (case har resp of None \<Rightarrow> [] | Some h \<Rightarrow> h)"

definition script_list :: "response \<Rightarrow> string list" where
  "script_list resp = (case scripts resp of None \<Rightarrow> [] | Some s \<Rightarrow> s)"

text \<open>\<open>_prepare_har\<close>: the loop appends one synthesized entry per script; an
  exception of \<open>_mark_main_entry\<close> leaves before any script is looked at.\<close>

definition prepare_har :: "(string \<Rightarrow> string \<Rightarrow> error + string) \<Rightarrow> string \<Rightarrow> response \<Rightarrow> error + entry list" where
  "prepare_har urljoin requested_url resp =
     (let h = har_list resp in
      case (if h \<noteq> [] then mark_main_entry urljoin h else Inr h) of
        Inl err \<Rightarrow> Inl err
      | Inr h' \<Rightarrow>
          Inr (foldl (\<lambda>acc script. acc @ [script_to_har_entry requested_url script]) h'
                 (script_list resp)))"

text \<open>
  \<open>urllib.parse.urljoin\<close> on the inputs of the examples below: an empty reference
  resolves to the base, the reference \<open>http://[x\<close> raises \<open>ValueError\<close> (an
  unclosed bracket is an invalid IPv6 host), a well-formed absolute URL resolves to
  itself.
\<close>

definition urljoin_absolute :: "string \<Rightarrow> string \<Rightarrow> error + string" where
  "urljoin_absolute base url =
     (if url = [] then Inr base
      else if url = ''http://[x'' then Inl ValueError
      else Inr url)"

definition count_type :: "entry_type \<Rightarrow> entry list \<Rightarrow> nat" where
  "count_type t es = length (filter (\<lambda>e. detectem_type e = Some t) es)"

section \<open>External collaborators\<close>

text \<open>
  The matcher classes of detectem.matchers (\<open>UrlMatcher\<close>, \<open>BodyMatcher\<close>,
  \<open>HeaderMatcher\<close>, \<open>XPathMatcher\<close>) are outside core.py. Each offers three
  operations on an entry and the list of signatures of its kind; the signatures are
  opaque, of type \<open>'m\<close>.
\<close>

record 'm matcher =
  get_version :: "entry \<Rightarrow> 'm list \<Rightarrow> string option"
  check_presence :: "entry \<Rightarrow> 'm list \<Rightarrow> bool"
  get_module_name :: "entry \<Rightarrow> 'm list \<Rightarrow> string option"

text \<open>
  What core.py takes from libraries and from detectem.utils: the four matcher instances,
  \<open>str.encode('utf-8')\<close>, \<open>hashlib.sha256(...).hexdigest()\<close> and
  \<open>get_most_complete_version\<close>.
\<close>

record 'm lib =
  UrlMatcher :: "'m matcher"
  BodyMatcher :: "'m matcher"
  HeaderMatcher :: "'m matcher"
  XPathMatcher :: "'m matcher"
  encode_utf8 :: "string \<Rightarrow> string"
  sha256_hexdigest :: "string \<Rightarrow> string"
  get_most_complete_version :: "string list \<Rightarrow> string option"

text \<open>The module-level dictionary \<open>MATCHERS\<close>; a key outside it is a \<open>KeyError\<close>
  at the lookup \<open>MATCHERS[key]\<close>.\<close>

definition MATCHERS :: "'m lib \<Rightarrow> string \<Rightarrow> 'm matcher option" where
  "MATCHERS l key =
     (if key = ''url'' then Some (UrlMatcher l)
      else if key = ''body'' then Some (BodyMatcher l)
      else if key = ''header'' then Some (HeaderMatcher l)
      else if key = ''xpath'' then Some (XPathMatcher l)
      else None)"

text \<open>
  A plugin, as core.py reads it: \<open>name\<close>, \<open>homepage\<close>, \<open>is_modular\<close>, the optional
  attributes \<open>hints\<close> and \<open>file_hashes\<close> (read with \<open>getattr\<close> and a default), and the
  methods \<open>get_grouped_matchers(source)\<close>, a dictionary from signature kind to
  signatures in iteration order, and \<open>get_information(entry)\<close>, a dictionary.
  \<open>get_grouped_matchers\<close> returns a fresh dictionary on every call.
\<close>

record 'm plugin =
  name :: string
  homepage :: string
  is_modular :: bool
  hints :: "string list option"
  file_hashes :: "(string \<times> (string \<times> string) list) list option"
  get_grouped_matchers :: "string \<Rightarrow> (string \<times> 'm list) list"
  get_information :: "entry \<Rightarrow> (string \<rightharpoonup> string)"

text \<open>The plugin registry \<open>self._plugins\<close>: lookup by name and the three enumerations.\<close>

record 'm plugins =
  get :: "string \<Rightarrow> 'm plugin option"
  with_version_matchers :: "'m plugin list"
  with_indicator_matchers :: "'m plugin list"
  with_generic_matchers :: "'m plugin list"

text \<open>\<open>getattr(plugin, 'hints', [])\<close> and \<open>getattr(plugin, 'file_hashes', {})\<close>.\<close>

definition hint_names :: "'m plugin \<Rightarrow> string list" where
  "hint_names plugin = (case hints plugin of None \<Rightarrow> [] | Some hs \<Rightarrow> hs)"

definition file_hash_table :: "'m plugin \<Rightarrow> (string \<times> (string \<times> string) list) list" where
  "file_hash_table plugin = (case file_hashes plugin of None \<Rightarrow> [] | Some d \<Rightarrow> d)"

record result =
  result_name :: string
  result_version :: "string option"
  result_homepage :: string
  result_from_url :: string
  result_type :: result_type

text \<open>
  Modelled from the spec: the class \<open>Result\<close> of detectem.results is not in src/. Its
  constructor takes name, version, homepage, from_url and type; the spec calls a Result
  built without a type a VERSION Result, and one built without a version has none.
\<close>

definition Result :: "string \<Rightarrow> string option \<Rightarrow> string \<Rightarrow> string \<Rightarrow> result_type option \<Rightarrow> result" where
  "Result n v h u t =
     \<lparr>result_name = n, result_version = v, result_homepage = h, result_from_url = u,
      result_type = (case t of None \<Rightarrow> VERSION_TYPE | Some ty \<Rightarrow> ty)\<rparr>"

text \<open>
  Modelled from the spec: \<open>get_url\<close> and \<open>get_response_body\<close> of detectem.utils are not
  in src/. The spec has Results carry \<open>fromUrl = entry.responseUrl\<close> and the file-hash
  lookup read the entry's response URL and its body text.
\<close>

definition get_url :: "entry \<Rightarrow> string" where
  "get_url e = response_url e"

definition get_response_body :: "entry \<Rightarrow> string" where
  "get_response_body e = content_text e"

text \<open>Python's \<open>sub in s\<close> on strings.\<close>

fun str_contains :: "string \<Rightarrow> string \<Rightarrow> bool" where
  "str_contains sub [] = (sub = [])"
| "str_contains sub (c # cs) = (take (length sub) (c # cs) = sub \<or> str_contains sub cs)"

definition bind_err :: "error + 'a \<Rightarrow> ('a \<Rightarrow> error + 'b) \<Rightarrow> error + 'b" where
  "bind_err m f = (case m of Inl err \<Rightarrow> Inl err | Inr x \<Rightarrow> f x)"

section \<open>The matcher group router\<close>

text \<open>\<open>remove_group\<close>: \<open>if group in grouped_matchers: del grouped_matchers[group]\<close>.\<close>

definition remove_group :: "string \<Rightarrow> (string \<times> 'a) list \<Rightarrow> (string \<times> 'a) list" where
  "remove_group key grouped_matchers = filter (\<lambda>kv. fst kv \<noteq> key) grouped_matchers"

definition get_matchers_for_entry :: "string \<Rightarrow> 'm plugin \<Rightarrow> entry \<Rightarrow> error + (string \<times> 'm list) list" where
  "get_matchers_for_entry source plugin e =
     (let grouped_matchers = get_grouped_matchers plugin source in
      case get_entry_type e of
        Inl err \<Rightarrow> Inl err
      | Inr t \<Rightarrow>
          if t = MAIN_ENTRY
          then Inr (remove_group ''url'' (remove_group ''body'' grouped_matchers))
          else Inr (remove_group ''xpath'' (remove_group ''header'' grouped_matchers)))"

section \<open>Versions, names, presence\<close>

fun versions_loop :: "'m lib \<Rightarrow> entry \<Rightarrow> (string \<times> 'm list) list \<Rightarrow> string list \<Rightarrow> error + string list" where
  "versions_loop l e [] versions = Inr versions"
| "versions_loop l e (km # rest) versions =
     (case MATCHERS l (fst km) of
        None \<Rightarrow> Inl KeyError
      | Some klass \<Rightarrow>
          (case get_version klass e (snd km) of
             None \<Rightarrow> versions_loop l e rest versions
           | Some v \<Rightarrow>
               if v \<noteq> [] then versions_loop l e rest (versions @ [v])
               else versions_loop l e rest versions))"

definition get_plugin_version :: "'m lib \<Rightarrow> 'm plugin \<Rightarrow> entry \<Rightarrow> error + string option" where
  "get_plugin_version l plugin e =
     bind_err (get_matchers_for_entry ''matchers'' plugin e) (\<lambda>grouped_matchers.
     bind_err (versions_loop l e grouped_matchers []) (\<lambda>versions.
     Inr (get_most_complete_version l versions)))"

fun hash_dict_loop :: "string \<Rightarrow> (string \<times> string) list \<Rightarrow> string option" where
  "hash_dict_loop h [] = None"
| "hash_dict_loop h (vh # rest) =
     (if h = snd vh then Some (fst vh) else hash_dict_loop h rest)"

fun file_hashes_loop :: "'m lib \<Rightarrow> string \<Rightarrow> string \<Rightarrow> (string \<times> (string \<times> string) list) list \<Rightarrow> string option" where
  "file_hashes_loop l url body [] = None"
| "file_hashes_loop l url body (fh # rest) =
     (if \<not> str_contains (fst fh) url then file_hashes_loop l url body rest
      else (case hash_dict_loop (sha256_hexdigest l body) (snd fh) of
              Some version \<Rightarrow> Some version
            | None \<Rightarrow> file_hashes_loop l url body rest))"

definition get_version_via_file_hashes :: "'m lib \<Rightarrow> 'm plugin \<Rightarrow> entry \<Rightarrow> string option" where
  "get_version_via_file_hashes l plugin e =
     (let fhs = file_hash_table plugin in
      if fhs = [] then None
      else file_hashes_loop l (get_url e) (encode_utf8 l (get_response_body e)) fhs)"

text \<open>The loop of \<open>get_plugin_name\<close>; the last argument is the variable \<open>module_name\<close>,
  and a true value breaks the loop.\<close>

fun module_name_loop :: "'m lib \<Rightarrow> entry \<Rightarrow> (string \<times> 'm list) list \<Rightarrow> string option \<Rightarrow> error + string option" where
  "module_name_loop l e [] module_name = Inr module_name"
| "module_name_loop l e (km # rest) module_name =
     (case MATCHERS l (fst km) of
        None \<Rightarrow> Inl KeyError
      | Some klass \<Rightarrow>
          (let module_name' = get_module_name klass e (snd km) in
           if truthy module_name' then Inr module_name'
           else module_name_loop l e rest module_name'))"

definition get_plugin_name :: "'m lib \<Rightarrow> 'm plugin \<Rightarrow> entry \<Rightarrow> error + string" where
  "get_plugin_name l plugin e =
     (if \<not> is_modular plugin then Inr (name plugin)
      else
        bind_err (get_matchers_for_entry ''modular_matchers'' plugin e) (\<lambda>grouped_matchers.
        bind_err (module_name_loop l e grouped_matchers None) (\<lambda>module_name.
        (case module_name of
           None \<Rightarrow> Inr (name plugin)
         | Some m \<Rightarrow> if m \<noteq> [] then Inr (name plugin @ ''-'' @ m) else Inr (name plugin)))))"

fun presences_loop :: "'m lib \<Rightarrow> entry \<Rightarrow> (string \<times> 'm list) list \<Rightarrow> bool list \<Rightarrow> error + bool list" where
  "presences_loop l e [] presences = Inr presences"
| "presences_loop l e (km # rest) presences =
     (case MATCHERS l (fst km) of
        None \<Rightarrow> Inl KeyError
      | Some klass \<Rightarrow> presences_loop l e rest (presences @ [check_presence klass e (snd km)]))"

text \<open>Python's \<open>any\<close> on a list of booleans.\<close>

definition py_any :: "bool list \<Rightarrow> bool" where
  "py_any bs = list_ex (\<lambda>b. b) bs"

definition check_indicator_presence :: "'m lib \<Rightarrow> 'm plugin \<Rightarrow> entry \<Rightarrow> error + bool" where
  "check_indicator_presence l plugin e =
     bind_err (get_matchers_for_entry ''indicators'' plugin e) (\<lambda>grouped_matchers.
     bind_err (presences_loop l e grouped_matchers []) (\<lambda>presences.
     Inr (py_any presences)))"

section \<open>Hints and the two passes\<close>

text \<open>\<open>get_hints\<close>: \<open>getattr(plugin, 'hints', [])\<close> is walked in order; a name the
  registry knows appends one HINT Result, an unknown name is logged and appends nothing.\<close>

definition get_hints :: "'m plugins \<Rightarrow> string \<Rightarrow> 'm plugin \<Rightarrow> result list" where
  "get_hints registry requested_url plugin =
     foldl (\<lambda>acc hint_name.
              case get registry hint_name of
                Some hint_plugin \<Rightarrow>
                  acc @ [Result (name hint_plugin) None (homepage hint_plugin) requested_url
                           (Some HINT_TYPE)]
              | None \<Rightarrow> acc)
       [] (hint_names plugin)"

text \<open>
  The result collection is external; \<open>self._results\<close> is modelled as the sequence of
  the Results handed to \<open>add_result\<close>, in order.
\<close>

definition add_results :: "result list \<Rightarrow> result list \<Rightarrow> result list" where
  "add_results results rs = foldl (\<lambda>acc r. acc @ [r]) results rs"

text \<open>\<open>process_from_splash\<close>: \<open>plugin\<close> is \<open>None\<close> for an unregistered name, and
  \<open>plugin.name\<close> then raises \<open>AttributeError\<close>.\<close>

fun process_from_splash :: "'m plugins \<Rightarrow> string \<Rightarrow> software list \<Rightarrow> result list \<Rightarrow> error + result list" where
  "process_from_splash registry requested_url [] results = Inr results"
| "process_from_splash registry requested_url (sw # rest) results =
     (case get registry (software_name sw) of
        None \<Rightarrow> Inl AttributeError
      | Some plugin \<Rightarrow>
          process_from_splash registry requested_url rest
            (add_results
               (results @ [Result (name plugin) (Some (software_version sw)) (homepage plugin)
                             requested_url None])
               (get_hints registry requested_url plugin)))"

text \<open>A \<open>for\<close> loop whose body may raise: the state is threaded, the first error ends it.\<close>

fun for_each :: "('a \<Rightarrow> 's \<Rightarrow> error + 's) \<Rightarrow> 'a list \<Rightarrow> 's \<Rightarrow> error + 's" where
  "for_each body [] st = Inr st"
| "for_each body (x # xs) st =
     (case body x st of Inl err \<Rightarrow> Inl err | Inr st' \<Rightarrow> for_each body xs st')"

text \<open>
  The three inner loop bodies of \<open>process_har\<close>. The state is the pair of
  \<open>self._results\<close> and the local list \<open>hints\<close>.
\<close>

definition version_plugin_body :: "'m lib \<Rightarrow> 'm plugins \<Rightarrow> string \<Rightarrow> entry \<Rightarrow> 'm plugin \<Rightarrow> result list \<times> result list \<Rightarrow> error + result list \<times> result list" where
  "version_plugin_body l registry requested_url e plugin st =
     bind_err (get_plugin_version l plugin e) (\<lambda>version.
     if truthy version then
       bind_err (get_plugin_name l plugin e) (\<lambda>n.
       Inr (fst st @ [Result n version (homepage plugin) (get_url e) None],
            snd st @ get_hints registry requested_url plugin))
     else Inr st)"

definition indicator_plugin_body :: "'m lib \<Rightarrow> 'm plugins \<Rightarrow> string \<Rightarrow> entry \<Rightarrow> 'm plugin \<Rightarrow> result list \<times> result list \<Rightarrow> error + result list \<times> result list" where
  "indicator_plugin_body l registry requested_url e plugin st =
     bind_err (check_indicator_presence l plugin e) (\<lambda>is_present.
     if is_present then
       bind_err (get_plugin_name l plugin e) (\<lambda>n.
       (let results1 = fst st @ [Result n None (homepage plugin) (get_url e) (Some INDICATOR_TYPE)];
            hints1 = snd st @ get_hints registry requested_url plugin;
            version = get_version_via_file_hashes l plugin e
        in if truthy version
           then Inr (results1 @ [Result n version (homepage plugin) (get_url e) None], hints1)
           else Inr (results1 @ [Result n None (homepage plugin) (get_url e) (Some INDICATOR_TYPE)],
                     hints1)))
     else Inr st)"

definition generic_plugin_body :: "'m lib \<Rightarrow> entry \<Rightarrow> 'm plugin \<Rightarrow> result list \<times> result list \<Rightarrow> error + result list \<times> result list" where
  "generic_plugin_body l e plugin st =
     bind_err (check_indicator_presence l plugin e) (\<lambda>is_present.
     if is_present then
       (let plugin_data = get_information plugin e in
        case plugin_data ''name'' of
          None \<Rightarrow> Inr st
        | Some n \<Rightarrow>
            (case plugin_data ''homepage'' of
               None \<Rightarrow> Inl KeyError
             | Some h \<Rightarrow> Inr (fst st @ [Result n None h (get_url e) (Some GENERIC_TYPE)], snd st)))
     else Inr st)"

definition process_entry :: "'m lib \<Rightarrow> 'm plugins \<Rightarrow> string \<Rightarrow> entry \<Rightarrow> result list \<times> result list \<Rightarrow> error + result list \<times> result list" where
  "process_entry l registry requested_url e st =
     bind_err (for_each (version_plugin_body l registry requested_url e)
                 (with_version_matchers registry) st) (\<lambda>st1.
     bind_err (for_each (indicator_plugin_body l registry requested_url e)
                 (with_indicator_matchers registry) st1) (\<lambda>st2.
     for_each (generic_plugin_body l e) (with_generic_matchers registry) st2))"

text \<open>\<open>process_har\<close>: all entries, then the queued hints are flushed into the results.\<close>

definition process_har :: "'m lib \<Rightarrow> 'm plugins \<Rightarrow> string \<Rightarrow> entry list \<Rightarrow> result list \<Rightarrow> error + result list" where
  "process_har l registry requested_url entries results =
     bind_err (for_each (process_entry l registry requested_url) entries (results, [])) (\<lambda>st.
     Inr (add_results (fst st) (snd st)))"

section \<open>Specification-side notions\<close>

text \<open>The signature kinds of the spec's plugin tables.\<close>

definition signature_kinds :: "string set" where
  "signature_kinds = {''url'', ''body'', ''header'', ''xpath''}"

text \<open>The kinds a matcher table has entries for.\<close>

definition kinds_of :: "(string \<times> 'a) list \<Rightarrow> string set" where
  "kinds_of grouped_matchers = fst ` set grouped_matchers"

text \<open>A list of entries that differs from another one in the classifications only.\<close>

definition retagged :: "entry list \<Rightarrow> entry list \<Rightarrow> bool" where
  "retagged es' es = list_all2 (\<lambda>e' e. \<exists>t. e' = set_entry_type e t) es' es"

text \<open>What one signature kind of a routed table reports for an entry: presence and
  module name, through the matcher that \<open>MATCHERS\<close> has for the kind.\<close>

definition kind_presence :: "'m lib \<Rightarrow> entry \<Rightarrow> string \<times> 'm list \<Rightarrow> bool" where
  "kind_presence l e km =
     (case MATCHERS l (fst km) of None \<Rightarrow> False | Some klass \<Rightarrow> check_presence klass e (snd km))"

definition kind_module_name :: "'m lib \<Rightarrow> entry \<Rightarrow> string \<times> 'm list \<Rightarrow> string option" where
  "kind_module_name l e km =
     (case MATCHERS l (fst km) of None \<Rightarrow> None | Some klass \<Rightarrow> get_module_name klass e (snd km))"

text \<open>The Results one hint name stands for: one HINT Result of the hinted plugin when
  the registry has the name, none otherwise.\<close>

definition hint_results :: "'m plugins \<Rightarrow> string \<Rightarrow> string \<Rightarrow> result list" where
  "hint_results registry requested_url hint_name =
     (case get registry hint_name of
        None \<Rightarrow> []
      | Some hint_plugin \<Rightarrow>
          [\<lparr>result_name = name hint_plugin, result_version = None,
            result_homepage = homepage hint_plugin, result_from_url = requested_url,
            result_type = HINT_TYPE\<rparr>])"

text \<open>The Results one splash-reported software stands for: the VERSION Result of its
  plugin, followed by that plugin's hints.\<close>

definition splash_results :: "'m plugins \<Rightarrow> string \<Rightarrow> software \<Rightarrow> result list" where
  "splash_results registry requested_url sw =
     (case get registry (software_name sw) of
        None \<Rightarrow> []
      | Some plugin \<Rightarrow>
          \<lparr>result_name = name plugin, result_version = Some (software_version sw),
           result_homepage = homepage plugin, result_from_url = requested_url,
           result_type = VERSION_TYPE\<rparr>
          # concat (map (hint_results registry requested_url) (hint_names plugin)))"

text \<open>The file-hash lookup in the spec's words: among the pairs whose URL substring
  occurs in the URL, in order, the first version whose recorded hash is the digest.\<close>

definition first_matching_version :: "string \<Rightarrow> string \<Rightarrow> (string \<times> (string \<times> string) list) list \<Rightarrow> string option" where
  "first_matching_version url digest table =
     map_option fst
       (find (\<lambda>vh. snd vh = digest)
          (concat (map snd (filter (\<lambda>fh. str_contains (fst fh) url) table))))"

text \<open>
  When classification raises: the list is non-empty, the first entry's first Location
  header has a non-empty value, and \<open>urljoin\<close> raises on it. \<open>None\<close> is no failure.
\<close>

definition resolution_failure :: "(string \<Rightarrow> string \<Rightarrow> error + string) \<Rightarrow> entry list \<Rightarrow> error option" where
  "resolution_failure urljoin entries =
     (case entries of
        [] \<Rightarrow> None
      | e # _ \<Rightarrow>
          (case get_location e of
             None \<Rightarrow> None
           | Some X \<Rightarrow>
               if X = [] then None
               else (case urljoin (request_url e) X of Inl err \<Rightarrow> Some err | Inr _ \<Rightarrow> None)))"

section \<open>Concrete sessions\<close>

text \<open>A first exchange that redirects to a malformed URL.\<close>

definition ex_bad_location :: entry where
  "ex_bad_location =
     \<lparr>request_url = ''http://a/'', response_url = ''http://a/'',
      response_headers = Some [(''Location'', ''http://[x'')],
      content_text = [], detectem_type = None\<rparr>"

definition ex_redirect :: entry where
  "ex_redirect =
     \<lparr>request_url = ''http://a/'', response_url = ''http://a/'',
      response_headers = Some [(''Server'', ''x''), (''Location'', ''https://a/'')],
      content_text = [], detectem_type = None\<rparr>"

definition ex_page :: entry where
  "ex_page =
     \<lparr>request_url = ''https://a/'', response_url = ''https://a/'',
      response_headers = Some [(''Server'', ''x'')],
      content_text = ''<html>'', detectem_type = None\<rparr>"

definition ex_asset :: entry where
  "ex_asset =
     \<lparr>request_url = ''https://a/app.js'', response_url = ''https://a/app.js'',
      response_headers = None, content_text = ''var x'', detectem_type = None\<rparr>"

text \<open>A first exchange whose Location header is present with an empty value, and a later
  request of the same URL.\<close>

definition ex_empty_location :: entry where
  "ex_empty_location =
     \<lparr>request_url = ''http://a/'', response_url = ''http://a/'',
      response_headers = Some [(''Location'', [])],
      content_text = [], detectem_type = None\<rparr>"

definition ex_reload :: entry where
  "ex_reload =
     \<lparr>request_url = ''http://a/'', response_url = ''http://a/'',
      response_headers = None, content_text = ''<html>'', detectem_type = None\<rparr>"

text \<open>Stand-ins for the matchers: the URL matcher knows an entry by its exact URL, the
  body matcher reports an empty module name, the third one never matches.\<close>

definition ex_url_matcher :: "string matcher" where
  "ex_url_matcher =
     \<lparr>get_version = (\<lambda>e ms. if response_url e \<in> set ms then Some ''3.2.1'' else None),
      check_presence = (\<lambda>e ms. response_url e \<in> set ms),
      get_module_name = (\<lambda>e ms. if response_url e \<in> set ms then Some ''core'' else None)\<rparr>"

definition ex_body_matcher :: "string matcher" where
  "ex_body_matcher =
     \<lparr>get_version = (\<lambda>e ms. None), check_presence = (\<lambda>e ms. False),
      get_module_name = (\<lambda>e ms. Some [])\<rparr>"

definition ex_no_matcher :: "string matcher" where
  "ex_no_matcher =
     \<lparr>get_version = (\<lambda>e ms. None), check_presence = (\<lambda>e ms. False),
      get_module_name = (\<lambda>e ms. None)\<rparr>"

text \<open>SHA-256 on the two bodies of the examples: the hex digest of the bytes of
  \<open>var x\<close>, and that of the empty byte string for the rest.\<close>

definition ex_sha256 :: "string \<Rightarrow> string" where
  "ex_sha256 body =
     (if body = ''var x''
      then ''4bf26fc9ade6cf51e78d51c62811bbf1a7fccd772efbdfa2322e5cd8838b08c7''
      else ''e3b0c44298fc1c149afbf4c8996fb92427ae41e4649b934ca495991b7852b855'')"

definition ex_lib :: "string lib" where
  "ex_lib =
     \<lparr>UrlMatcher = ex_url_matcher, BodyMatcher = ex_body_matcher,
      HeaderMatcher = ex_no_matcher, XPathMatcher = ex_no_matcher,
      encode_utf8 = (\<lambda>s. s), sha256_hexdigest = ex_sha256,
      get_most_complete_version = (\<lambda>vs. case vs of [] \<Rightarrow> None | v # _ \<Rightarrow> Some v)\<rparr>"

definition ex_bar :: "string plugin" where
  "ex_bar =
     \<lparr>name = ''bar'', homepage = ''http://bar.example'', is_modular = False,
      hints = None, file_hashes = None,
      get_grouped_matchers = (\<lambda>source. []),
      get_information = (\<lambda>e. Map.empty)\<rparr>"

text \<open>A modular plugin with the same table for every source, two hints of which the
  registry knows one, and a file-hash table.\<close>

definition ex_foo :: "string plugin" where
  "ex_foo =
     \<lparr>name = ''foo'', homepage = ''http://foo.example'', is_modular = True,
      hints = Some [''bar'', ''missing''],
      file_hashes = Some
        [(''other.js'', [(''0.9'', ''4bf26fc9ade6cf51e78d51c62811bbf1a7fccd772efbdfa2322e5cd8838b08c7'')]),
         (''app.js'',
            [(''0.1'', ''e3b0c44298fc1c149afbf4c8996fb92427ae41e4649b934ca495991b7852b855''),
             (''1.0'', ''4bf26fc9ade6cf51e78d51c62811bbf1a7fccd772efbdfa2322e5cd8838b08c7'')])],
      get_grouped_matchers =
        (\<lambda>source. [(''header'', [''X-Foo'']), (''body'', [''foo'']), (''url'', [''https://a/app.js''])]),
      get_information = (\<lambda>e. Map.empty)\<rparr>"

text \<open>The same plugin with a file-hash table whose only version string is empty.\<close>

definition ex_foo_blank :: "string plugin" where
  "ex_foo_blank =
     ex_foo\<lparr>file_hashes := Some
        [(''app.js'', [([], ''4bf26fc9ade6cf51e78d51c62811bbf1a7fccd772efbdfa2322e5cd8838b08c7'')])]\<rparr>"

text \<open>A plugin whose table has a kind that \<open>MATCHERS\<close> does not have.\<close>

definition ex_dom :: "string plugin" where
  "ex_dom = ex_bar\<lparr>get_grouped_matchers := (\<lambda>source. [(''dom'', [''x''])])\<rparr>"

definition ex_generic :: "string plugin" where
  "ex_generic =
     \<lparr>name = ''cms'', homepage = ''http://generic.example'', is_modular = False,
      hints = None, file_hashes = None,
      get_grouped_matchers = (\<lambda>source. [(''url'', [''https://a/app.js''])]),
      get_information =
        (\<lambda>e. [''name'' \<mapsto> ''Foo CMS'', ''homepage'' \<mapsto> ''http://cms.example''])\<rparr>"

definition ex_registry :: "string plugins" where
  "ex_registry =
     \<lparr>get = (\<lambda>n. if n = ''foo'' then Some ex_foo else if n = ''bar'' then Some ex_bar else None),
      with_version_matchers = [ex_foo],
      with_indicator_matchers = [ex_foo],
      with_generic_matchers = [ex_generic]\<rparr>"

text \<open>Two classified entries: the page as MAIN, the script file as RESOURCE.\<close>

definition ex_main :: entry where
  "ex_main = set_entry_type ex_page MAIN_ENTRY"

definition ex_resource :: entry where
  "ex_resource = set_entry_type ex_asset RESOURCE_ENTRY"

section \<open>Classification of entries\<close>

lemma count_type_append: "count_type t (xs @ ys) = count_type t xs + count_type t ys"
  by (simp add: count_type_def)

lemma count_type_Cons:
  "count_type t (x # xs) = (if detectem_type x = Some t then 1 else 0) + count_type t xs"
  by (simp add: count_type_def)

lemma count_type_Nil: "count_type t [] = 0"
  by (simp add: count_type_def)

lemma detectem_type_set_entry_type: "detectem_type (set_entry_type e t) = Some t"
  by (simp add: set_entry_type_def)

lemma set_entry_type_twice: "set_entry_type (set_entry_type e s) t = set_entry_type e t"
  by (simp add: set_entry_type_def)

lemma request_url_set_entry_type: "request_url (set_entry_type e t) = request_url e"
  by (simp add: set_entry_type_def)

lemma get_location_set_entry_type: "get_location (set_entry_type e t) = get_location e"
  by (simp add: set_entry_type_def get_location_def header_list_def)

lemma count_type_map_set:
  "count_type t (map (\<lambda>e. set_entry_type e s) es) = (if s = t then length es else 0)"
  by (induction es) (auto simp: count_type_Cons count_type_Nil detectem_type_set_entry_type)

lemma mark_redirect_target_None:
  "mark_redirect_target u es = None \<longleftrightarrow> (\<forall>x\<in>set es. request_url x \<noteq> u)"
  by (induction es) (auto split: option.splits)

lemma mark_redirect_target_split:
  "\<forall>x\<in>set pre. request_url x \<noteq> u \<Longrightarrow> request_url m = u \<Longrightarrow>
   mark_redirect_target u (pre @ m # post) = Some (pre @ set_entry_type m MAIN_ENTRY # post)"
  by (induction pre) auto

lemma mark_main_entry_no_redirect:
  "get_location e = None \<or> get_location e = Some [] \<Longrightarrow>
   mark_main_entry f (e # es) =
     Inr (set_entry_type e MAIN_ENTRY # map (\<lambda>x. set_entry_type x RESOURCE_ENTRY) es)"
  by (auto simp: mark_main_entry_def get_location_set_entry_type set_entry_type_twice)

lemma mark_main_entry_redirect_error:
  assumes "get_location e = Some X" "X \<noteq> []" "f (request_url e) X = Inl err"
  shows "mark_main_entry f (e # es) = Inl err"
  using assms
  by (simp add: mark_main_entry_def get_location_set_entry_type request_url_set_entry_type)

lemma mark_main_entry_redirect_found:
  assumes "get_location e = Some X" "X \<noteq> []" "f (request_url e) X = Inr U"
    and "\<forall>x\<in>set pre. request_url x \<noteq> U"
    and "request_url m = U"
  shows "mark_main_entry f (e # pre @ m # post) =
     Inr (set_entry_type e RESOURCE_ENTRY # map (\<lambda>x. set_entry_type x RESOURCE_ENTRY) pre
          @ set_entry_type m MAIN_ENTRY # map (\<lambda>x. set_entry_type x RESOURCE_ENTRY) post)"
proof -
  let ?R = "\<lambda>x. set_entry_type x RESOURCE_ENTRY"
  have "mark_redirect_target U (map ?R pre @ ?R m # map ?R post)
        = Some (map ?R pre @ set_entry_type (?R m) MAIN_ENTRY # map ?R post)"
    using assms(4,5) by (intro mark_redirect_target_split) (auto simp: request_url_set_entry_type)
  then show ?thesis
    using assms(1,2,3)
    by (simp add: mark_main_entry_def get_location_set_entry_type request_url_set_entry_type
        set_entry_type_twice)
qed

lemma mark_main_entry_redirect_missing:
  assumes "get_location e = Some X" "X \<noteq> []" "f (request_url e) X = Inr U"
    and "\<forall>x\<in>set es. request_url x \<noteq> U"
  shows "mark_main_entry f (e # es) =
     Inr (set_entry_type e MAIN_ENTRY # map (\<lambda>x. set_entry_type x RESOURCE_ENTRY) es)"
proof -
  let ?R = "\<lambda>x. set_entry_type x RESOURCE_ENTRY"
  have "mark_redirect_target U (map ?R es) = None"
    using assms(4) by (simp add: mark_redirect_target_None request_url_set_entry_type)
  then show ?thesis
    using assms(1,2,3)
    by (simp add: mark_main_entry_def get_location_set_entry_type request_url_set_entry_type
        set_entry_type_twice)
qed

lemma retagged_map: "retagged (map (\<lambda>x. set_entry_type x t) es) es"
  by (induction es) (auto simp: retagged_def)

lemma retagged_Cons: "retagged es' es \<Longrightarrow> retagged (set_entry_type e t # es') (e # es)"
  by (auto simp: retagged_def)

lemma retagged_append: "retagged xs' xs \<Longrightarrow> retagged ys' ys \<Longrightarrow> retagged (xs' @ ys') (xs @ ys)"
  by (simp add: retagged_def list_all2_appendI)

lemma resolution_failure_Cons_Some:
  "resolution_failure f (e # es) = Some err \<longleftrightarrow>
   (\<exists>X. get_location e = Some X \<and> X \<noteq> [] \<and> f (request_url e) X = Inl err)"
  by (auto simp: resolution_failure_def split: option.splits sum.splits)

lemma resolution_failure_Cons_None:
  "resolution_failure f (e # es) = None \<longleftrightarrow>
   (get_location e = None \<or> get_location e = Some []
    \<or> (\<exists>X U. get_location e = Some X \<and> X \<noteq> [] \<and> f (request_url e) X = Inr U))"
  by (auto simp: resolution_failure_def split: option.splits sum.splits)

lemma mark_main_entry_failure:
  assumes "resolution_failure f es = Some err"
  shows "mark_main_entry f es = Inl err"
proof -
  from assms obtain e rest where es: "es = e # rest"
    by (cases es) (auto simp: resolution_failure_def)
  with assms obtain X where "get_location e = Some X" "X \<noteq> []" "f (request_url e) X = Inl err"
    by (auto simp: resolution_failure_Cons_Some)
  then show ?thesis
    unfolding es by (rule mark_main_entry_redirect_error)
qed

lemma mark_main_entry_shape:
  assumes "es \<noteq> []" and "resolution_failure f es = None"
  shows "\<exists>es'. mark_main_entry f es = Inr es' \<and> retagged es' es
           \<and> count_type MAIN_ENTRY es' = 1 \<and> count_type INLINE_SCRIPT_ENTRY es' = 0"
proof -
  let ?R = "\<lambda>x. set_entry_type x RESOURCE_ENTRY"
  from assms(1) obtain e rest where es: "es = e # rest" by (cases es) auto
  from assms(2) consider (plain) "get_location e = None \<or> get_location e = Some []"
    | (missing) X U where "get_location e = Some X" "X \<noteq> []" "f (request_url e) X = Inr U"
        "\<forall>x\<in>set rest. request_url x \<noteq> U"
    | (found) X U where "get_location e = Some X" "X \<noteq> []" "f (request_url e) X = Inr U"
        "\<not> (\<forall>x\<in>set rest. request_url x \<noteq> U)"
    unfolding es resolution_failure_Cons_None by blast
  then show ?thesis
  proof cases
    case plain
    from mark_main_entry_no_redirect[OF plain] show ?thesis
      by (simp add: es retagged_Cons retagged_map count_type_Cons count_type_map_set
          detectem_type_set_entry_type)
  next
    case missing
    from mark_main_entry_redirect_missing[of e X f U rest, OF missing] show ?thesis
      by (simp add: es retagged_Cons retagged_map count_type_Cons count_type_map_set
          detectem_type_set_entry_type)
  next
    case found
    from found(4) obtain pre m post where sp: "rest = pre @ m # post"
      "\<forall>x\<in>set pre. request_url x \<noteq> U" "request_url m = U"
      using split_list_first_prop[of rest "\<lambda>x. request_url x = U"] by blast
    have "retagged (?R e # map ?R pre @ set_entry_type m MAIN_ENTRY # map ?R post) (e # pre @ m # post)"
      by (intro retagged_Cons retagged_append retagged_map)
    with mark_main_entry_redirect_found[of e X f U pre m post, OF found(1,2,3) sp(2,3)] show ?thesis
      by (simp add: es sp(1) count_type_Cons count_type_append count_type_map_set
          detectem_type_set_entry_type)
  qed
qed

lemma foldl_snoc_map: "foldl (\<lambda>acc x. acc @ [g x]) xs ys = xs @ map g ys"
  by (induction ys arbitrary: xs) auto

lemma count_type_scripts:
  "count_type t (map (script_to_har_entry u) ss) = (if t = INLINE_SCRIPT_ENTRY then length ss else 0)"
  by (induction ss) (auto simp: count_type_Cons count_type_Nil script_to_har_entry_def detectem_type_set_entry_type)

lemma prepare_har_failure:
  assumes "resolution_failure f (har_list resp) = Some err"
  shows "prepare_har f u resp = Inl err"
proof -
  from assms have "har_list resp \<noteq> []" by (auto simp: resolution_failure_def)
  with mark_main_entry_failure[OF assms] show ?thesis
    by (simp add: prepare_har_def)
qed

lemma prepare_har_shape:
  assumes "resolution_failure f (har_list resp) = None"
  shows "\<exists>hs. prepare_har f u resp = Inr (hs @ map (script_to_har_entry u) (script_list resp))
     \<and> retagged hs (har_list resp)
     \<and> count_type MAIN_ENTRY hs = (if har_list resp = [] then 0 else 1)
     \<and> count_type INLINE_SCRIPT_ENTRY hs = 0"
proof (cases "har_list resp = []")
  case True
  then show ?thesis
    by (simp add: prepare_har_def foldl_snoc_map retagged_def count_type_Nil)
next
  case False
  from mark_main_entry_shape[OF False assms] obtain es' where
    "mark_main_entry f (har_list resp) = Inr es'" "retagged es' (har_list resp)"
    "count_type MAIN_ENTRY es' = 1" "count_type INLINE_SCRIPT_ENTRY es' = 0" by blast
  with False show ?thesis
    by (simp add: prepare_har_def foldl_snoc_map)
qed

lemma get_location_None_iff:
  "get_location e = None \<longleftrightarrow> (\<forall>h\<in>set (header_list e). fst h \<noteq> ''Location'')"
proof -
  have "get_location_headers hs = None \<longleftrightarrow> (\<forall>h\<in>set hs. fst h \<noteq> ''Location'')" for hs
    by (induction hs) auto
  then show ?thesis by (simp add: get_location_def)
qed

lemma ex_bad_location_fails:
  "get_location ex_bad_location = Some ''http://[x''"
  "urljoin_absolute (request_url ex_bad_location) ''http://[x'' = Inl ValueError"
  by (simp_all add: get_location_def header_list_def ex_bad_location_def urljoin_absolute_def)

lemma ex_redirect_resolves:
  "get_location ex_redirect = Some ''https://a/''"
  "urljoin_absolute (request_url ex_redirect) ''https://a/'' = Inr ''https://a/''"
  by (simp_all add: get_location_def header_list_def ex_redirect_def urljoin_absolute_def)

text \<open>
  Claim C1, as stated, fails: with an empty har list and one inline script the prepared
  sequence has one entry, classified INLINE_SCRIPT, and no entry classified MAIN.
\<close>

theorem C1_counterexample:
  "prepare_har urljoin_absolute ''http://a/'' \<lparr>har = Some [], scripts = Some [''x''], softwares = []\<rparr>
     = Inr [\<lparr>request_url = ''http://a/'', response_url = ''http://a/'', response_headers = None,
             content_text = ''x'', detectem_type = Some INLINE_SCRIPT_ENTRY\<rparr>]
   \<and> count_type MAIN_ENTRY
        [\<lparr>request_url = ''http://a/'', response_url = ''http://a/'', response_headers = None,
          content_text = ''x'', detectem_type = Some INLINE_SCRIPT_ENTRY\<rparr>] = 0"
  by (simp add: prepare_har_def har_list_def script_list_def script_to_har_entry_def
      set_entry_type_def count_type_def)

text \<open>
  Claim C1, amended. \<open>_prepare_har\<close> raises exactly when the har list is non-empty, the
  first entry's first Location header has a non-empty value and \<open>urljoin\<close> raises on
  it; the error is that of \<open>urljoin\<close>. Otherwise it returns the har-derived entries
  followed by the script entries, and exactly one entry is MAIN, a har-derived one, when
  the har list is non-empty, and none is MAIN when the har list is empty or absent,
  whatever the inline scripts are.
\<close>

theorem C1_main_entry_count:
  "(resolution_failure urljoin (har_list resp) = Some err \<longrightarrow>
      prepare_har urljoin requested_url resp = Inl err)
   \<and> (resolution_failure urljoin (har_list resp) = None \<longrightarrow>
      (\<exists>hs. prepare_har urljoin requested_url resp
               = Inr (hs @ map (script_to_har_entry requested_url) (script_list resp))
         \<and> retagged hs (har_list resp)
         \<and> count_type MAIN_ENTRY hs = (if har_list resp = [] then 0 else 1)
         \<and> count_type MAIN_ENTRY (hs @ map (script_to_har_entry requested_url) (script_list resp))
            = (if har_list resp = [] then 0 else 1)))"
proof (intro conjI impI)
  assume "resolution_failure urljoin (har_list resp) = Some err"
  then show "prepare_har urljoin requested_url resp = Inl err"
    by (rule prepare_har_failure)
next
  assume "resolution_failure urljoin (har_list resp) = None"
  from prepare_har_shape[OF this, of requested_url] obtain hs where
    "prepare_har urljoin requested_url resp
       = Inr (hs @ map (script_to_har_entry requested_url) (script_list resp))"
    "retagged hs (har_list resp)"
    "count_type MAIN_ENTRY hs = (if har_list resp = [] then 0 else 1)" by blast
  then show "\<exists>hs. prepare_har urljoin requested_url resp
               = Inr (hs @ map (script_to_har_entry requested_url) (script_list resp))
         \<and> retagged hs (har_list resp)
         \<and> count_type MAIN_ENTRY hs = (if har_list resp = [] then 0 else 1)
         \<and> count_type MAIN_ENTRY (hs @ map (script_to_har_entry requested_url) (script_list resp))
            = (if har_list resp = [] then 0 else 1)"
    by (intro exI[of _ hs]) (simp add: count_type_append count_type_scripts)
qed

text \<open>C1 at a session of three exchanges and one script, and at a session whose first
  exchange redirects to a malformed URL.\<close>

theorem C1_main_entry_count_witness:
  "(\<exists>hs. prepare_har urljoin_absolute ''http://a/''
           \<lparr>har = Some [ex_redirect, ex_asset, ex_page], scripts = Some [''x''], softwares = []\<rparr>
         = Inr (hs @ [script_to_har_entry ''http://a/'' ''x''])
       \<and> retagged hs [ex_redirect, ex_asset, ex_page]
       \<and> count_type MAIN_ENTRY hs = 1
       \<and> count_type MAIN_ENTRY (hs @ [script_to_har_entry ''http://a/'' ''x'']) = 1)
   \<and> prepare_har urljoin_absolute ''http://a/''
        \<lparr>har = Some [ex_bad_location, ex_page], scripts = Some [''x''], softwares = []\<rparr>
      = Inl ValueError"
proof -
  have ok: "resolution_failure urljoin_absolute [ex_redirect, ex_asset, ex_page] = None"
    by (simp add: resolution_failure_def ex_redirect_resolves)
  have bad: "resolution_failure urljoin_absolute [ex_bad_location, ex_page] = Some ValueError"
    by (simp add: resolution_failure_def ex_bad_location_fails)
  show ?thesis
    using C1_main_entry_count [where urljoin = urljoin_absolute and requested_url = "''http://a/''"
        and resp = "\<lparr>har = Some [ex_redirect, ex_asset, ex_page], scripts = Some [''x''],
                      softwares = []\<rparr>"]
      C1_main_entry_count [where urljoin = urljoin_absolute and requested_url = "''http://a/''"
        and err = ValueError
        and resp = "\<lparr>har = Some [ex_bad_location, ex_page], scripts = Some [''x''],
                      softwares = []\<rparr>"]
      ok bad
    by (simp add: har_list_def script_list_def)
qed

text \<open>
  Claim C2, as stated, fails: the first entry has a Location header whose value is the
  empty string, the second entry's request URL is the resolution of that value against
  the first entry's request URL, and yet the first entry is tagged MAIN and the second
  stays RESOURCE.
\<close>

theorem C2_counterexample:
  "get_location ex_empty_location = Some []
   \<and> urljoin_absolute (request_url ex_empty_location) [] = Inr (request_url ex_reload)
   \<and> mark_main_entry urljoin_absolute [ex_empty_location, ex_reload]
       = Inr [set_entry_type ex_empty_location MAIN_ENTRY, set_entry_type ex_reload RESOURCE_ENTRY]"
  by (simp add: mark_main_entry_def get_location_def header_list_def ex_empty_location_def
      ex_reload_def urljoin_absolute_def set_entry_type_def)

text \<open>
  Claim C2, amended. For a non-empty har list \<open>e # es\<close>: when the first entry has no
  Location header, or its first Location header has an empty value, the first entry is
  MAIN and all others RESOURCE. When its first Location header has a non-empty value
  \<open>X\<close> and \<open>urljoin\<close> resolves \<open>X\<close> against the first entry's request URL to \<open>U\<close>:
  the first later entry whose request URL is \<open>U\<close> is MAIN and all others, the first
  included, are RESOURCE; when no later entry has that request URL, the first entry is
  MAIN and all others RESOURCE. When \<open>urljoin\<close> raises on \<open>X\<close>, \<open>_mark_main_entry\<close>
  raises that error.
\<close>

theorem C2_mark_main_entry:
  "((\<forall>h\<in>set (header_list e). fst h \<noteq> ''Location'') \<or> get_location e = Some [] \<longrightarrow>
      mark_main_entry urljoin (e # es)
        = Inr (set_entry_type e MAIN_ENTRY # map (\<lambda>x. set_entry_type x RESOURCE_ENTRY) es))
   \<and> (get_location e = Some X \<and> X \<noteq> [] \<and> urljoin (request_url e) X = Inr U
        \<and> (\<forall>x\<in>set pre. request_url x \<noteq> U) \<and> request_url m = U \<longrightarrow>
      mark_main_entry urljoin (e # pre @ m # post)
        = Inr (set_entry_type e RESOURCE_ENTRY # map (\<lambda>x. set_entry_type x RESOURCE_ENTRY) pre
               @ set_entry_type m MAIN_ENTRY # map (\<lambda>x. set_entry_type x RESOURCE_ENTRY) post))
   \<and> (get_location e = Some X \<and> X \<noteq> [] \<and> urljoin (request_url e) X = Inr U
        \<and> (\<forall>x\<in>set es. request_url x \<noteq> U) \<longrightarrow>
      mark_main_entry urljoin (e # es)
        = Inr (set_entry_type e MAIN_ENTRY # map (\<lambda>x. set_entry_type x RESOURCE_ENTRY) es))
   \<and> (get_location e = Some X \<and> X \<noteq> [] \<and> urljoin (request_url e) X = Inl err \<longrightarrow>
      mark_main_entry urljoin (e # es) = Inl err)"
  using mark_main_entry_no_redirect[of e urljoin es]
    mark_main_entry_redirect_found[of e X urljoin U pre m post]
    mark_main_entry_redirect_missing[of e X urljoin U es]
    mark_main_entry_redirect_error[of e X urljoin err es]
  by (simp add: get_location_None_iff[symmetric])

text \<open>C2 at a list without redirect, one with a redirect that is followed, one with a
  redirect whose target was never requested, and one with a malformed redirect.\<close>

theorem C2_mark_main_entry_witness:
  "mark_main_entry urljoin_absolute [ex_page, ex_asset]
     = Inr [set_entry_type ex_page MAIN_ENTRY, set_entry_type ex_asset RESOURCE_ENTRY]
   \<and> mark_main_entry urljoin_absolute [ex_redirect, ex_asset, ex_page, ex_page]
     = Inr [set_entry_type ex_redirect RESOURCE_ENTRY, set_entry_type ex_asset RESOURCE_ENTRY,
            set_entry_type ex_page MAIN_ENTRY, set_entry_type ex_page RESOURCE_ENTRY]
   \<and> mark_main_entry urljoin_absolute [ex_redirect, ex_asset]
     = Inr [set_entry_type ex_redirect MAIN_ENTRY, set_entry_type ex_asset RESOURCE_ENTRY]
   \<and> mark_main_entry urljoin_absolute [ex_bad_location, ex_asset] = Inl ValueError"
proof -
  have plain: "\<forall>h\<in>set (header_list ex_page). fst h \<noteq> ''Location''"
    by (simp add: header_list_def ex_page_def)
  have pre: "\<forall>x\<in>set [ex_asset]. request_url x \<noteq> ''https://a/''"
    by (simp add: ex_asset_def)
  have m: "request_url ex_page = ''https://a/''"
    by (simp add: ex_page_def)
  show ?thesis
    using C2_mark_main_entry [where e = ex_page and es = "[ex_asset]" and urljoin = urljoin_absolute]
      C2_mark_main_entry [where e = ex_redirect and urljoin = urljoin_absolute
        and X = "''https://a/''" and U = "''https://a/''" and pre = "[ex_asset]" and m = ex_page
        and post = "[ex_page]"]
      C2_mark_main_entry [where e = ex_redirect and es = "[ex_asset]" and urljoin = urljoin_absolute
        and X = "''https://a/''" and U = "''https://a/''"]
      C2_mark_main_entry [where e = ex_bad_location and es = "[ex_asset]"
        and urljoin = urljoin_absolute and X = "''http://[x''" and err = ValueError]
      ex_redirect_resolves ex_bad_location_fails plain pre m
    by simp
qed

text \<open>
  Claim C9, as stated, fails: the first exchange of the session redirects to the
  malformed URL \<open>http://[x\<close>, on which \<open>urljoin\<close> raises \<open>ValueError\<close>;
  \<open>_prepare_har\<close> raises before any script entry is appended, and the session's
  inline script has no entry.
\<close>

theorem C9_counterexample:
  "get_location ex_bad_location = Some ''http://[x''
   \<and> urljoin_absolute (request_url ex_bad_location) ''http://[x'' = Inl ValueError
   \<and> prepare_har urljoin_absolute ''http://a/''
       \<lparr>har = Some [ex_bad_location], scripts = Some [''x''], softwares = []\<rparr>
     = Inl ValueError"
  by (simp add: prepare_har_def har_list_def mark_main_entry_def get_location_def
      header_list_def ex_bad_location_def urljoin_absolute_def set_entry_type_def)

text \<open>
  Claim C9, amended. \<open>_prepare_har\<close> raises exactly when the har list is non-empty, the
  first entry's first Location header has a non-empty value and \<open>urljoin\<close> raises on
  it. Otherwise the prepared sequence is the har-derived entries (the har list,
  retagged) followed by one entry per inline script, in the scripts' order; exactly as
  many entries are INLINE_SCRIPT as there are scripts; and each script's entry has the
  requested URL as request and response URL, the script as body text and the
  classification INLINE_SCRIPT.
\<close>

theorem C9_inline_scripts:
  "(resolution_failure urljoin (har_list resp) = Some err \<longrightarrow>
      prepare_har urljoin requested_url resp = Inl err)
   \<and> (resolution_failure urljoin (har_list resp) = None \<longrightarrow>
      (\<exists>hs. prepare_har urljoin requested_url resp
               = Inr (hs @ map (script_to_har_entry requested_url) (script_list resp))
         \<and> retagged hs (har_list resp)
         \<and> count_type INLINE_SCRIPT_ENTRY
              (hs @ map (script_to_har_entry requested_url) (script_list resp))
            = length (script_list resp)))
   \<and> (\<forall>script. script_to_har_entry requested_url script
          = \<lparr>request_url = requested_url, response_url = requested_url, response_headers = None,
             content_text = script, detectem_type = Some INLINE_SCRIPT_ENTRY\<rparr>)"
proof (intro conjI impI)
  assume "resolution_failure urljoin (har_list resp) = Some err"
  then show "prepare_har urljoin requested_url resp = Inl err"
    by (rule prepare_har_failure)
next
  assume "resolution_failure urljoin (har_list resp) = None"
  from prepare_har_shape[OF this, of requested_url] obtain hs where
    "prepare_har urljoin requested_url resp
       = Inr (hs @ map (script_to_har_entry requested_url) (script_list resp))"
    "retagged hs (har_list resp)" "count_type INLINE_SCRIPT_ENTRY hs = 0" by blast
  then show "\<exists>hs. prepare_har urljoin requested_url resp
               = Inr (hs @ map (script_to_har_entry requested_url) (script_list resp))
         \<and> retagged hs (har_list resp)
         \<and> count_type INLINE_SCRIPT_ENTRY
              (hs @ map (script_to_har_entry requested_url) (script_list resp))
            = length (script_list resp)"
    by (intro exI[of _ hs]) (simp add: count_type_append count_type_scripts)
next
  show "\<forall>script. script_to_har_entry requested_url script
          = \<lparr>request_url = requested_url, response_url = requested_url, response_headers = None,
             content_text = script, detectem_type = Some INLINE_SCRIPT_ENTRY\<rparr>"
    by (simp add: script_to_har_entry_def set_entry_type_def)
qed

text \<open>C9 at a session of a followed redirect and two scripts, and at a session whose
  first exchange has no Location header.\<close>

theorem C9_inline_scripts_witness:
  "(\<exists>hs. prepare_har urljoin_absolute ''http://a/''
           \<lparr>har = Some [ex_redirect, ex_page], scripts = Some [''x'', ''y''], softwares = []\<rparr>
         = Inr (hs @
             [\<lparr>request_url = ''http://a/'', response_url = ''http://a/'', response_headers = None,
                 content_text = ''x'', detectem_type = Some INLINE_SCRIPT_ENTRY\<rparr>,
              \<lparr>request_url = ''http://a/'', response_url = ''http://a/'', response_headers = None,
                 content_text = ''y'', detectem_type = Some INLINE_SCRIPT_ENTRY\<rparr>])
       \<and> retagged hs [ex_redirect, ex_page])
   \<and> prepare_har urljoin_absolute ''http://a/''
        \<lparr>har = Some [ex_bad_location], scripts = Some [''x''], softwares = []\<rparr>
      = Inl ValueError"
proof -
  have ok: "resolution_failure urljoin_absolute [ex_redirect, ex_page] = None"
    by (simp add: resolution_failure_def ex_redirect_resolves)
  have bad: "resolution_failure urljoin_absolute [ex_bad_location] = Some ValueError"
    by (simp add: resolution_failure_def ex_bad_location_fails)
  show ?thesis
    using C9_inline_scripts [where urljoin = urljoin_absolute and requested_url = "''http://a/''"
        and resp = "\<lparr>har = Some [ex_redirect, ex_page], scripts = Some [''x'', ''y''],
                      softwares = []\<rparr>"]
      C9_inline_scripts [where urljoin = urljoin_absolute and requested_url = "''http://a/''"
        and err = ValueError
        and resp = "\<lparr>har = Some [ex_bad_location], scripts = Some [''x''], softwares = []\<rparr>"]
      ok bad
    by (auto simp: har_list_def script_list_def)
qed

section \<open>Routing, names, presence and the passes\<close>

lemma MATCHERS_None_iff: "MATCHERS l k = None \<longleftrightarrow> k \<notin> signature_kinds"
  by (simp add: MATCHERS_def signature_kinds_def)

lemma kinds_of_Cons: "kinds_of (km # T) = insert (fst km) (kinds_of T)"
  by (simp add: kinds_of_def)

lemma kinds_of_remove_group: "kinds_of (remove_group k T) = kinds_of T - {k}"
  by (auto simp: kinds_of_def remove_group_def)

lemma remove_group_twice:
  "remove_group a (remove_group b T) = filter (\<lambda>kv. fst kv \<noteq> a \<and> fst kv \<noteq> b) T"
  by (simp add: remove_group_def conj_commute)

lemma routed_kinds:
  assumes "T = remove_group a (remove_group b G)"
  shows "b \<notin> kinds_of T \<and> a \<notin> kinds_of T
         \<and> T = filter (\<lambda>kv. fst kv \<noteq> a \<and> fst kv \<noteq> b) G
         \<and> (kinds_of G \<subseteq> {a, b, c, d} \<longrightarrow> kinds_of T \<subseteq> {c, d})"
proof -
  have "kinds_of T = kinds_of G - {a, b}"
    using assms by (auto simp: kinds_of_remove_group)
  moreover have "T = filter (\<lambda>kv. fst kv \<noteq> a \<and> fst kv \<noteq> b) G"
    using assms by (simp add: remove_group_twice)
  ultimately show ?thesis by auto
qed

lemma signature_kinds_main: "signature_kinds = {''url'', ''body'', ''header'', ''xpath''}"
  by (simp add: signature_kinds_def)

lemma signature_kinds_other: "signature_kinds = {''xpath'', ''header'', ''url'', ''body''}"
  unfolding signature_kinds_def by (simp only: insert_commute)

text \<open>
  Claim C3: for every plugin, signature source and entry, the router returns a table.
  For a MAIN entry it has no 'body' and no 'url' kind: it is the plugin's table without
  these two kinds, and of the four signature kinds only 'header' and 'xpath' are left.
  For a RESOURCE or INLINE_SCRIPT entry it has no 'header' and no 'xpath' kind: it is the
  plugin's table without these two, and only 'url' and 'body' are left.
\<close>

theorem C3_router:
  "(detectem_type e = Some MAIN_ENTRY \<longrightarrow>
      (\<exists>T. get_matchers_for_entry source plugin e = Inr T
         \<and> ''body'' \<notin> kinds_of T \<and> ''url'' \<notin> kinds_of T
         \<and> T = filter (\<lambda>kv. fst kv \<noteq> ''url'' \<and> fst kv \<noteq> ''body'') (get_grouped_matchers plugin source)
         \<and> (kinds_of (get_grouped_matchers plugin source) \<subseteq> signature_kinds
              \<longrightarrow> kinds_of T \<subseteq> {''header'', ''xpath''})))
   \<and> (detectem_type e = Some RESOURCE_ENTRY \<or> detectem_type e = Some INLINE_SCRIPT_ENTRY \<longrightarrow>
      (\<exists>T. get_matchers_for_entry source plugin e = Inr T
         \<and> ''header'' \<notin> kinds_of T \<and> ''xpath'' \<notin> kinds_of T
         \<and> T = filter (\<lambda>kv. fst kv \<noteq> ''xpath'' \<and> fst kv \<noteq> ''header'') (get_grouped_matchers plugin source)
         \<and> (kinds_of (get_grouped_matchers plugin source) \<subseteq> signature_kinds
              \<longrightarrow> kinds_of T \<subseteq> {''url'', ''body''})))"
proof (rule conjI; rule impI)
  let ?G = "get_grouped_matchers plugin source"
  assume "detectem_type e = Some MAIN_ENTRY"
  then have "get_matchers_for_entry source plugin e = Inr (remove_group ''url'' (remove_group ''body'' ?G))"
    by (simp add: get_matchers_for_entry_def get_entry_type_def)
  with routed_kinds[OF refl, where a = "''url''" and b = "''body''" and G = ?G and c = "''header''" and d = "''xpath''"]
  show "\<exists>T. get_matchers_for_entry source plugin e = Inr T
         \<and> ''body'' \<notin> kinds_of T \<and> ''url'' \<notin> kinds_of T
         \<and> T = filter (\<lambda>kv. fst kv \<noteq> ''url'' \<and> fst kv \<noteq> ''body'') ?G
         \<and> (kinds_of ?G \<subseteq> signature_kinds \<longrightarrow> kinds_of T \<subseteq> {''header'', ''xpath''})"
    unfolding signature_kinds_main by (intro exI[of _ "remove_group ''url'' (remove_group ''body'' ?G)"]) blast
next
  let ?G = "get_grouped_matchers plugin source"
  assume "detectem_type e = Some RESOURCE_ENTRY \<or> detectem_type e = Some INLINE_SCRIPT_ENTRY"
  then have "get_matchers_for_entry source plugin e = Inr (remove_group ''xpath'' (remove_group ''header'' ?G))"
    by (auto simp: get_matchers_for_entry_def get_entry_type_def)
  with routed_kinds[OF refl, where a = "''xpath''" and b = "''header''" and G = ?G and c = "''url''" and d = "''body''"]
  show "\<exists>T. get_matchers_for_entry source plugin e = Inr T
         \<and> ''header'' \<notin> kinds_of T \<and> ''xpath'' \<notin> kinds_of T
         \<and> T = filter (\<lambda>kv. fst kv \<noteq> ''xpath'' \<and> fst kv \<noteq> ''header'') ?G
         \<and> (kinds_of ?G \<subseteq> signature_kinds \<longrightarrow> kinds_of T \<subseteq> {''url'', ''body''})"
    unfolding signature_kinds_other by (intro exI[of _ "remove_group ''xpath'' (remove_group ''header'' ?G)"]) blast
qed

lemma presences_loop_known:
  "kinds_of T \<subseteq> signature_kinds \<Longrightarrow>
   presences_loop l e T acc = Inr (acc @ map (kind_presence l e) T)"
proof (induction T arbitrary: acc)
  case Nil
  then show ?case by simp
next
  case (Cons km T)
  from Cons.prems have "fst km \<in> signature_kinds" "kinds_of T \<subseteq> signature_kinds"
    by (simp_all add: kinds_of_Cons)
  then obtain klass where "MATCHERS l (fst km) = Some klass"
    using MATCHERS_None_iff[of l "fst km"] by (cases "MATCHERS l (fst km)") auto
  with Cons.IH[OF \<open>kinds_of T \<subseteq> signature_kinds\<close>] show ?case
    by (simp add: kind_presence_def)
qed

lemma presences_loop_unknown:
  "\<not> kinds_of T \<subseteq> signature_kinds \<Longrightarrow> presences_loop l e T acc = Inl KeyError"
proof (induction T arbitrary: acc)
  case Nil
  then show ?case by (simp add: kinds_of_def)
next
  case (Cons km T)
  show ?case
  proof (cases "MATCHERS l (fst km)")
    case None
    then show ?thesis by simp
  next
    case (Some klass)
    then have "fst km \<in> signature_kinds" using MATCHERS_None_iff[of l "fst km"] by auto
    with Cons.prems have "\<not> kinds_of T \<subseteq> signature_kinds" by (simp add: kinds_of_Cons)
    from Cons.IH[OF this] Some show ?thesis by simp
  qed
qed

lemma py_any_map: "py_any (map P xs) = (\<exists>x\<in>set xs. P x)"
  by (induction xs) (auto simp: py_any_def)

text \<open>
  Claim C4: with \<open>T\<close> the table the router returns for the plugin's indicators on the
  entry, and its kinds among the four signature kinds, \<open>check_indicator_presence\<close>
  returns true exactly when some kind of \<open>T\<close> has \<open>check_presence\<close> true; so it returns
  false when all are false and when \<open>T\<close> is empty. A kind that \<open>MATCHERS\<close> does not
  have raises \<open>KeyError\<close>.
\<close>

theorem C4_indicator_presence:
  assumes "get_matchers_for_entry ''indicators'' plugin e = Inr T"
  shows "check_indicator_presence l plugin e =
           (if kinds_of T \<subseteq> signature_kinds then Inr (\<exists>km\<in>set T. kind_presence l e km)
            else Inl KeyError)"
  using assms presences_loop_known[of T l e "[]"] presences_loop_unknown[of T l e "[]"]
  by (simp add: check_indicator_presence_def bind_err_def py_any_map)


lemma kind_module_name_Some:
  "kind_module_name l e km = Some m \<Longrightarrow>
   \<exists>klass. MATCHERS l (fst km) = Some klass \<and> get_module_name klass e (snd km) = Some m"
  by (auto simp: kind_module_name_def split: option.splits)

lemma module_name_loop_found:
  assumes "\<forall>x\<in>set pre. fst x \<in> signature_kinds \<and> \<not> truthy (kind_module_name l e x)"
    and "kind_module_name l e km = Some m" and "m \<noteq> []"
  shows "module_name_loop l e (pre @ km # post) mn = Inr (Some m)"
  using assms(1)
proof (induction pre arbitrary: mn)
  case Nil
  from kind_module_name_Some[OF assms(2)] assms(3) show ?case
    by (auto simp: truthy_def)
next
  case (Cons x pre)
  then have k: "fst x \<in> signature_kinds" and nt: "\<not> truthy (kind_module_name l e x)" by simp_all
  from k obtain klass where kl: "MATCHERS l (fst x) = Some klass"
    using MATCHERS_None_iff[of l "fst x"] by (cases "MATCHERS l (fst x)") auto
  with nt have "\<not> truthy (get_module_name klass e (snd x))" by (simp add: kind_module_name_def)
  with kl Cons show ?case by simp
qed

lemma module_name_loop_none:
  assumes "\<forall>x\<in>set T. fst x \<in> signature_kinds \<and> \<not> truthy (kind_module_name l e x)"
    and "\<not> truthy mn"
  shows "\<exists>r. module_name_loop l e T mn = Inr r \<and> \<not> truthy r"
  using assms
proof (induction T arbitrary: mn)
  case Nil
  then show ?case by simp
next
  case (Cons x T)
  then have k: "fst x \<in> signature_kinds" and nt: "\<not> truthy (kind_module_name l e x)" by simp_all
  from k obtain klass where kl: "MATCHERS l (fst x) = Some klass"
    using MATCHERS_None_iff[of l "fst x"] by (cases "MATCHERS l (fst x)") auto
  with nt have n: "\<not> truthy (get_module_name klass e (snd x))" by (simp add: kind_module_name_def)
  from Cons.prems have "\<forall>x\<in>set T. fst x \<in> signature_kinds \<and> \<not> truthy (kind_module_name l e x)" by simp
  from Cons.IH[OF this n] kl n show ?case by simp
qed

text \<open>
  Claim C7: a non-modular plugin gets its plain name. For a modular plugin, with the
  router's table for 'modular_matchers': when the kinds before some kind \<open>km\<close> yield no
  or an empty module name and \<open>km\<close> yields the non-empty \<open>m\<close>, the name is the plugin's
  name, a dash and \<open>m\<close>, whatever follows \<open>km\<close> in the table; when no kind yields a
  non-empty module name, the name is the plain name, and nothing is raised. A detected
  version emits one VERSION Result under that name and queues the plugin's hints.
\<close>

theorem C7_plugin_name:
  "(\<not> is_modular plugin \<longrightarrow> get_plugin_name l plugin e = Inr (name plugin))
   \<and> (is_modular plugin
        \<and> get_matchers_for_entry ''modular_matchers'' plugin e = Inr (pre @ km # post)
        \<and> (\<forall>x\<in>set pre. fst x \<in> signature_kinds \<and> \<not> truthy (kind_module_name l e x))
        \<and> kind_module_name l e km = Some m \<and> m \<noteq> [] \<longrightarrow>
      get_plugin_name l plugin e = Inr (name plugin @ ''-'' @ m))
   \<and> (is_modular plugin
        \<and> get_matchers_for_entry ''modular_matchers'' plugin e = Inr T
        \<and> (\<forall>x\<in>set T. fst x \<in> signature_kinds \<and> \<not> truthy (kind_module_name l e x)) \<longrightarrow>
      get_plugin_name l plugin e = Inr (name plugin))
   \<and> (get_plugin_version l plugin e = Inr (Some v) \<and> v \<noteq> []
        \<and> get_plugin_name l plugin e = Inr n \<longrightarrow>
      version_plugin_body l registry requested_url e plugin (results, queued)
        = Inr (results @ [\<lparr>result_name = n, result_version = Some v,
                            result_homepage = homepage plugin, result_from_url = get_url e,
                            result_type = VERSION_TYPE\<rparr>],
               queued @ get_hints registry requested_url plugin))"
proof (intro conjI impI)
  show "get_plugin_name l plugin e = Inr (name plugin)" if "\<not> is_modular plugin"
    using that by (simp add: get_plugin_name_def)
next
  assume a: "is_modular plugin
        \<and> get_matchers_for_entry ''modular_matchers'' plugin e = Inr (pre @ km # post)
        \<and> (\<forall>x\<in>set pre. fst x \<in> signature_kinds \<and> \<not> truthy (kind_module_name l e x))
        \<and> kind_module_name l e km = Some m \<and> m \<noteq> []"
  then have "module_name_loop l e (pre @ km # post) None = Inr (Some m)"
    by (intro module_name_loop_found) auto
  with a show "get_plugin_name l plugin e = Inr (name plugin @ ''-'' @ m)"
    by (simp add: get_plugin_name_def bind_err_def)
next
  assume a: "is_modular plugin
        \<and> get_matchers_for_entry ''modular_matchers'' plugin e = Inr T
        \<and> (\<forall>x\<in>set T. fst x \<in> signature_kinds \<and> \<not> truthy (kind_module_name l e x))"
  then obtain r where "module_name_loop l e T None = Inr r" "\<not> truthy r"
    using module_name_loop_none[of T l e None] by (auto simp: truthy_def)
  with a show "get_plugin_name l plugin e = Inr (name plugin)"
    by (auto simp: get_plugin_name_def bind_err_def truthy_def split: option.splits)
next
  assume "get_plugin_version l plugin e = Inr (Some v) \<and> v \<noteq> []
        \<and> get_plugin_name l plugin e = Inr n"
  then show "version_plugin_body l registry requested_url e plugin (results, queued)
        = Inr (results @ [\<lparr>result_name = n, result_version = Some v,
                            result_homepage = homepage plugin, result_from_url = get_url e,
                            result_type = VERSION_TYPE\<rparr>],
               queued @ get_hints registry requested_url plugin)"
    by (simp add: version_plugin_body_def bind_err_def truthy_def Result_def)
qed

lemma str_contains_iff: "str_contains sub s \<longleftrightarrow> (\<exists>pre post. s = pre @ sub @ post)"
proof (induction s)
  case Nil
  then show ?case by auto
next
  case (Cons c cs)
  have "take (length sub) (c # cs) = sub \<longleftrightarrow> (\<exists>post. c # cs = sub @ post)"
    by (metis append_eq_conv_conj append_take_drop_id)
  moreover have "(\<exists>pre post. c # cs = pre @ sub @ post)
      \<longleftrightarrow> (\<exists>post. c # cs = sub @ post) \<or> (\<exists>pre post. cs = pre @ sub @ post)"
  proof
    assume "\<exists>pre post. c # cs = pre @ sub @ post"
    then obtain pre post where p: "c # cs = pre @ sub @ post" by blast
    show "(\<exists>post. c # cs = sub @ post) \<or> (\<exists>pre post. cs = pre @ sub @ post)"
    proof (cases pre)
      case Nil
      with p show ?thesis by auto
    next
      case (Cons a pre')
      with p have "cs = pre' @ sub @ post" by simp
      then show ?thesis by blast
    qed
  next
    assume "(\<exists>post. c # cs = sub @ post) \<or> (\<exists>pre post. cs = pre @ sub @ post)"
    then show "\<exists>pre post. c # cs = pre @ sub @ post"
    proof
      assume "\<exists>post. c # cs = sub @ post"
      then obtain post where "c # cs = [] @ sub @ post" by auto
      then show ?thesis by blast
    next
      assume "\<exists>pre post. cs = pre @ sub @ post"
      then obtain pre post where "c # cs = (c # pre) @ sub @ post" by auto
      then show ?thesis by blast
    qed
  qed
  ultimately show ?case using Cons.IH by simp
qed

lemma hash_dict_loop_find:
  "hash_dict_loop h d = map_option fst (find (\<lambda>vh. snd vh = h) d)"
  by (induction d) auto

lemma find_append_cases:
  "find P (xs @ ys) = (case find P xs of None \<Rightarrow> find P ys | Some x \<Rightarrow> Some x)"
  by (induction xs) auto

lemma file_hashes_loop_first:
  "file_hashes_loop l url body table
     = first_matching_version url (sha256_hexdigest l body) table"
proof (induction table)
  case Nil
  then show ?case by (simp add: first_matching_version_def)
next
  case (Cons fh table)
  then show ?case
    by (simp add: first_matching_version_def hash_dict_loop_find find_append_cases
        split: option.splits)
qed

lemma get_version_via_file_hashes_first:
  "get_version_via_file_hashes l plugin e
     = first_matching_version (get_url e)
         (sha256_hexdigest l (encode_utf8 l (get_response_body e))) (file_hash_table plugin)"
proof (cases "file_hash_table plugin = []")
  case True
  then show ?thesis
    by (simp add: get_version_via_file_hashes_def first_matching_version_def)
next
  case False
  then show ?thesis
    by (simp add: get_version_via_file_hashes_def file_hashes_loop_first)
qed


lemma add_results_append: "add_results results rs = results @ rs"
  unfolding add_results_def by (induction rs arbitrary: results) auto

lemma get_hints_loop:
  "foldl (\<lambda>acc hint_name.
            case get registry hint_name of
              Some hint_plugin \<Rightarrow>
                acc @ [Result (name hint_plugin) None (homepage hint_plugin) requested_url
                         (Some HINT_TYPE)]
            | None \<Rightarrow> acc) acc hs
   = acc @ concat (map (hint_results registry requested_url) hs)"
  by (induction hs arbitrary: acc) (auto simp: hint_results_def Result_def split: option.splits)

lemma get_hints_concat:
  "get_hints registry requested_url plugin
     = concat (map (hint_results registry requested_url) (hint_names plugin))"
  by (simp add: get_hints_def get_hints_loop)

text \<open>
  Claim C6: \<open>get_hints\<close> returns, for the plugin's hint names in order, one HINT Result
  with the hinted plugin's name and homepage and the requested URL for each name the
  registry has, and nothing for a name it does not have; it raises nothing, and the
  names after an unknown one are still processed. \<open>process_har\<close> appends the queued
  hints to the results after the last entry.
\<close>

theorem C6_hints:
  "get_hints registry requested_url plugin
     = concat (map (hint_results registry requested_url) (hint_names plugin))
   \<and> (\<forall>hint_name hint_plugin. get registry hint_name = Some hint_plugin \<longrightarrow>
        hint_results registry requested_url hint_name
          = [\<lparr>result_name = name hint_plugin, result_version = None,
               result_homepage = homepage hint_plugin, result_from_url = requested_url,
               result_type = HINT_TYPE\<rparr>])
   \<and> (\<forall>hint_name. get registry hint_name = None \<longrightarrow>
        hint_results registry requested_url hint_name = [])
   \<and> (\<forall>st. for_each (process_entry l registry requested_url) entries (results, []) = Inr st \<longrightarrow>
        process_har l registry requested_url entries results = Inr (fst st @ snd st))"
  by (simp add: get_hints_concat hint_results_def process_har_def bind_err_def add_results_append)

text \<open>
  Claim C5, amended. The file-hash lookup returns the first version, over the pairs whose
  URL substring occurs in the entry's URL and in table order, whose recorded hash is the
  SHA-256 hex digest of the UTF-8 encoded body text. For an indicator plugin present on
  the entry, with display name \<open>n\<close>, the pipeline emits an INDICATOR Result for \<open>n\<close> and
  then, when the lookup returned a non-empty version, a VERSION Result for \<open>n\<close> with that
  version; when it returned nothing or the empty string, a second INDICATOR Result and no
  VERSION Result. The plugin's hints are queued.
\<close>

theorem C5_file_hashes:
  "get_version_via_file_hashes l plugin e
     = first_matching_version (get_url e)
         (sha256_hexdigest l (encode_utf8 l (get_response_body e))) (file_hash_table plugin)
   \<and> (check_indicator_presence l plugin e = Inr True \<and> get_plugin_name l plugin e = Inr n \<longrightarrow>
        indicator_plugin_body l registry requested_url e plugin (results, queued)
          = Inr (results
                 @ [\<lparr>result_name = n, result_version = None, result_homepage = homepage plugin,
                      result_from_url = get_url e, result_type = INDICATOR_TYPE\<rparr>,
                    (case get_version_via_file_hashes l plugin e of
                       None \<Rightarrow>
                         \<lparr>result_name = n, result_version = None, result_homepage = homepage plugin,
                          result_from_url = get_url e, result_type = INDICATOR_TYPE\<rparr>
                     | Some v \<Rightarrow>
                         if v \<noteq> [] then
                           \<lparr>result_name = n, result_version = Some v,
                            result_homepage = homepage plugin,
                            result_from_url = get_url e, result_type = VERSION_TYPE\<rparr>
                         else
                           \<lparr>result_name = n, result_version = None,
                            result_homepage = homepage plugin,
                            result_from_url = get_url e, result_type = INDICATOR_TYPE\<rparr>)],
                 queued @ get_hints registry requested_url plugin))"
proof (rule conjI)
  show "get_version_via_file_hashes l plugin e
     = first_matching_version (get_url e)
         (sha256_hexdigest l (encode_utf8 l (get_response_body e))) (file_hash_table plugin)"
    by (rule get_version_via_file_hashes_first)
next
  show "check_indicator_presence l plugin e = Inr True \<and> get_plugin_name l plugin e = Inr n \<longrightarrow>
        indicator_plugin_body l registry requested_url e plugin (results, queued)
          = Inr (results
                 @ [\<lparr>result_name = n, result_version = None, result_homepage = homepage plugin,
                      result_from_url = get_url e, result_type = INDICATOR_TYPE\<rparr>,
                    (case get_version_via_file_hashes l plugin e of
                       None \<Rightarrow>
                         \<lparr>result_name = n, result_version = None, result_homepage = homepage plugin,
                          result_from_url = get_url e, result_type = INDICATOR_TYPE\<rparr>
                     | Some v \<Rightarrow>
                         if v \<noteq> [] then
                           \<lparr>result_name = n, result_version = Some v,
                            result_homepage = homepage plugin,
                            result_from_url = get_url e, result_type = VERSION_TYPE\<rparr>
                         else
                           \<lparr>result_name = n, result_version = None,
                            result_homepage = homepage plugin,
                            result_from_url = get_url e, result_type = INDICATOR_TYPE\<rparr>)],
                 queued @ get_hints registry requested_url plugin)"
    by (cases "get_version_via_file_hashes l plugin e")
      (simp_all add: indicator_plugin_body_def bind_err_def truthy_def Result_def)
qed

text \<open>
  Claim C8: for a generic plugin present on an entry, when the record returned by
  \<open>get_information\<close> has a name (and the homepage that goes with it), exactly one
  GENERIC Result is emitted, with the record's name and homepage and the entry's URL;
  when the record has no name, nothing is emitted; and nothing is emitted when the
  plugin is not present.
\<close>

theorem C8_generic:
  "(check_indicator_presence l plugin e = Inr True
      \<and> get_information plugin e ''name'' = Some n
      \<and> get_information plugin e ''homepage'' = Some h \<longrightarrow>
    generic_plugin_body l e plugin (results, queued)
      = Inr (results @ [\<lparr>result_name = n, result_version = None, result_homepage = h,
                          result_from_url = get_url e, result_type = GENERIC_TYPE\<rparr>],
             queued))
   \<and> (check_indicator_presence l plugin e = Inr True
        \<and> get_information plugin e ''name'' = None \<longrightarrow>
      generic_plugin_body l e plugin (results, queued) = Inr (results, queued))
   \<and> (check_indicator_presence l plugin e = Inr False \<longrightarrow>
      generic_plugin_body l e plugin (results, queued) = Inr (results, queued))"
  by (simp add: generic_plugin_body_def bind_err_def Result_def)

lemma process_from_splash_known:
  "\<forall>sw\<in>set sws. get registry (software_name sw) \<noteq> None \<Longrightarrow>
   process_from_splash registry requested_url sws results
     = Inr (results @ concat (map (splash_results registry requested_url) sws))"
proof (induction sws arbitrary: results)
  case Nil
  then show ?case by simp
next
  case (Cons sw sws)
  then obtain plugin where p: "get registry (software_name sw) = Some plugin" by auto
  from Cons have "\<forall>sw\<in>set sws. get registry (software_name sw) \<noteq> None" by simp
  from Cons.IH[OF this] p show ?case
    by (simp add: splash_results_def add_results_append get_hints_concat Result_def)
qed

lemma process_from_splash_unknown:
  "\<exists>sw\<in>set sws. get registry (software_name sw) = None \<Longrightarrow>
   process_from_splash registry requested_url sws results = Inl AttributeError"
proof (induction sws arbitrary: results)
  case Nil
  then show ?case by simp
next
  case (Cons sw sws)
  show ?case
  proof (cases "get registry (software_name sw)")
    case None
    then show ?thesis by simp
  next
    case (Some plugin)
    with Cons.prems have "\<exists>sw\<in>set sws. get registry (software_name sw) = None" by auto
    from Cons.IH[OF this] Some show ?thesis by simp
  qed
qed

text \<open>
  Claim C10: \<open>process_from_splash\<close> returns exactly when every reported software name
  is registered, and raises \<open>AttributeError\<close> otherwise. When it returns, each
  software, in order, has added the VERSION Result of its plugin, with the reported
  version and the requested URL, immediately followed by that plugin's hints.
\<close>

theorem C10_process_from_splash:
  "process_from_splash registry requested_url sws results
     = (if \<forall>sw\<in>set sws. get registry (software_name sw) \<noteq> None
        then Inr (results @ concat (map (splash_results registry requested_url) sws))
        else Inl AttributeError)
   \<and> (\<forall>sw plugin. get registry (software_name sw) = Some plugin \<longrightarrow>
        splash_results registry requested_url sw
          = \<lparr>result_name = name plugin, result_version = Some (software_version sw),
             result_homepage = homepage plugin, result_from_url = requested_url,
             result_type = VERSION_TYPE\<rparr>
            # get_hints registry requested_url plugin)"
proof (rule conjI)
  show "process_from_splash registry requested_url sws results
     = (if \<forall>sw\<in>set sws. get registry (software_name sw) \<noteq> None
        then Inr (results @ concat (map (splash_results registry requested_url) sws))
        else Inl AttributeError)"
    using process_from_splash_known[of sws registry requested_url results]
      process_from_splash_unknown[of sws registry requested_url results]
    by auto
next
  show "\<forall>sw plugin. get registry (software_name sw) = Some plugin \<longrightarrow>
        splash_results registry requested_url sw
          = \<lparr>result_name = name plugin, result_version = Some (software_version sw),
             result_homepage = homepage plugin, result_from_url = requested_url,
             result_type = VERSION_TYPE\<rparr>
            # get_hints registry requested_url plugin"
    by (simp add: splash_results_def get_hints_concat)
qed

lemma ex_main_type: "detectem_type ex_main = Some MAIN_ENTRY"
  by (simp add: ex_main_def set_entry_type_def)

lemma ex_resource_type: "detectem_type ex_resource = Some RESOURCE_ENTRY"
  by (simp add: ex_resource_def set_entry_type_def)

lemma ex_resource_url: "response_url ex_resource = ''https://a/app.js''"
  by (simp add: ex_resource_def ex_asset_def set_entry_type_def)

lemma ex_foo_table:
  "get_grouped_matchers ex_foo source
     = [(''header'', [''X-Foo'']), (''body'', [''foo'']), (''url'', [''https://a/app.js''])]"
  by (simp add: ex_foo_def)

lemma ex_foo_routed_main:
  "get_matchers_for_entry source ex_foo ex_main = Inr [(''header'', [''X-Foo''])]"
  by (simp add: get_matchers_for_entry_def get_entry_type_def ex_main_type ex_foo_table
      remove_group_def)

lemma ex_foo_routed_resource:
  "get_matchers_for_entry source ex_foo ex_resource
     = Inr [(''body'', [''foo'']), (''url'', [''https://a/app.js''])]"
  by (simp add: get_matchers_for_entry_def get_entry_type_def ex_resource_type ex_foo_table
      remove_group_def)

lemma ex_dom_routed_resource:
  "get_matchers_for_entry source ex_dom ex_resource = Inr [(''dom'', [''x''])]"
  by (simp add: get_matchers_for_entry_def get_entry_type_def ex_resource_type ex_dom_def
      remove_group_def)

lemma ex_MATCHERS:
  "MATCHERS ex_lib ''url'' = Some ex_url_matcher"
  "MATCHERS ex_lib ''body'' = Some ex_body_matcher"
  "MATCHERS ex_lib ''header'' = Some ex_no_matcher"
  "MATCHERS ex_lib ''dom'' = None"
  by (simp_all add: MATCHERS_def ex_lib_def)

lemma ex_kinds:
  "''url'' \<in> signature_kinds" "''body'' \<in> signature_kinds" "''header'' \<in> signature_kinds"
  "''dom'' \<notin> signature_kinds"
  by (simp_all add: signature_kinds_def)

text \<open>C3 at a plugin with header, body and url signatures, on a MAIN and on a RESOURCE
  entry.\<close>

theorem C3_router_witness:
  "get_matchers_for_entry ''indicators'' ex_foo ex_main = Inr [(''header'', [''X-Foo''])]
   \<and> get_matchers_for_entry ''indicators'' ex_foo ex_resource
       = Inr [(''body'', [''foo'']), (''url'', [''https://a/app.js''])]"
  using C3_router [where e = ex_main and source = "''indicators''" and plugin = ex_foo]
    C3_router [where e = ex_resource and source = "''indicators''" and plugin = ex_foo]
    ex_main_type ex_resource_type
  by (simp add: ex_foo_table)

text \<open>C4 at an entry where the url kind is present, at one where the only eligible kind
  is absent, and at a table with an unknown kind.\<close>

theorem C4_indicator_presence_witness:
  "check_indicator_presence ex_lib ex_foo ex_resource = Inr True
   \<and> check_indicator_presence ex_lib ex_foo ex_main = Inr False
   \<and> check_indicator_presence ex_lib ex_dom ex_resource = Inl KeyError"
  using C4_indicator_presence [OF ex_foo_routed_resource, of ex_lib]
    C4_indicator_presence [OF ex_foo_routed_main, of ex_lib]
    C4_indicator_presence [OF ex_dom_routed_resource, of ex_lib]
  by (simp add: kinds_of_def ex_kinds kind_presence_def ex_MATCHERS ex_url_matcher_def
      ex_body_matcher_def ex_no_matcher_def ex_resource_url)

lemma ex_module_names:
  "kind_module_name ex_lib ex_resource (''body'', [''foo'']) = Some []"
  "kind_module_name ex_lib ex_resource (''url'', [''https://a/app.js'']) = Some ''core''"
  "kind_module_name ex_lib ex_main (''header'', [''X-Foo'']) = None"
  by (simp_all add: kind_module_name_def ex_MATCHERS ex_url_matcher_def ex_body_matcher_def
      ex_no_matcher_def ex_resource_url)

lemma ex_most_complete: "get_most_complete_version ex_lib [v] = Some v"
  by (simp add: ex_lib_def)

lemma ex_foo_version: "get_plugin_version ex_lib ex_foo ex_resource = Inr (Some ''3.2.1'')"
  by (simp add: get_plugin_version_def bind_err_def ex_foo_routed_resource ex_MATCHERS
      ex_url_matcher_def ex_body_matcher_def ex_resource_url ex_most_complete)

lemma ex_foo_hints:
  "get_hints ex_registry ''https://a/'' ex_foo
     = [\<lparr>result_name = ''bar'', result_version = None, result_homepage = ''http://bar.example'',
          result_from_url = ''https://a/'', result_type = HINT_TYPE\<rparr>]"
  by (simp add: get_hints_def hint_names_def ex_foo_def ex_registry_def ex_bar_def Result_def)

text \<open>C7 at a non-modular plugin, at a modular plugin whose second eligible kind is the
  first to yield a module name, at one with no module name, and at the emitted Result.\<close>

theorem C7_plugin_name_witness:
  "get_plugin_name ex_lib ex_bar ex_resource = Inr ''bar''
   \<and> get_plugin_name ex_lib ex_foo ex_resource = Inr ''foo-core''
   \<and> get_plugin_name ex_lib ex_foo ex_main = Inr ''foo''
   \<and> version_plugin_body ex_lib ex_registry ''https://a/'' ex_resource ex_foo ([], [])
       = Inr ([\<lparr>result_name = ''foo-core'', result_version = Some ''3.2.1'',
                 result_homepage = ''http://foo.example'', result_from_url = ''https://a/app.js'',
                 result_type = VERSION_TYPE\<rparr>],
              [\<lparr>result_name = ''bar'', result_version = None,
                 result_homepage = ''http://bar.example'', result_from_url = ''https://a/'',
                 result_type = HINT_TYPE\<rparr>])"
proof -
  have bar: "\<not> is_modular ex_bar" "name ex_bar = ''bar''" by (simp_all add: ex_bar_def)
  have foo: "is_modular ex_foo" "name ex_foo = ''foo''" "homepage ex_foo = ''http://foo.example''"
    by (simp_all add: ex_foo_def)
  have 1: "get_plugin_name ex_lib ex_bar ex_resource = Inr ''bar''"
    using C7_plugin_name [where plugin = ex_bar and l = ex_lib and e = ex_resource] bar by simp
  have 2: "get_plugin_name ex_lib ex_foo ex_resource = Inr ''foo-core''"
    using C7_plugin_name [where plugin = ex_foo and l = ex_lib and e = ex_resource
        and pre = "[(''body'', [''foo''])]" and km = "(''url'', [''https://a/app.js''])"
        and post = "[]" and m = "''core''"]
      foo ex_foo_routed_resource
    by (simp add: ex_module_names ex_kinds truthy_def)
  have 3: "get_plugin_name ex_lib ex_foo ex_main = Inr ''foo''"
    using C7_plugin_name [where plugin = ex_foo and l = ex_lib and e = ex_main
        and T = "[(''header'', [''X-Foo''])]"]
      foo ex_foo_routed_main
    by (simp add: ex_module_names ex_kinds truthy_def)
  have 4: "version_plugin_body ex_lib ex_registry ''https://a/'' ex_resource ex_foo ([], [])
       = Inr ([\<lparr>result_name = ''foo-core'', result_version = Some ''3.2.1'',
                 result_homepage = ''http://foo.example'', result_from_url = ''https://a/app.js'',
                 result_type = VERSION_TYPE\<rparr>],
              [\<lparr>result_name = ''bar'', result_version = None,
                 result_homepage = ''http://bar.example'', result_from_url = ''https://a/'',
                 result_type = HINT_TYPE\<rparr>])"
    using C7_plugin_name [where plugin = ex_foo and l = ex_lib and e = ex_resource
        and v = "''3.2.1''" and n = "''foo-core''" and registry = ex_registry
        and requested_url = "''https://a/''" and results = "[]" and queued = "[]"]
      2 ex_foo_version
    by (simp add: foo ex_foo_hints get_url_def ex_resource_url)
  from 1 2 3 4 show ?thesis by simp
qed

lemma ex_foo_fields:
  "is_modular ex_foo" "name ex_foo = ''foo''" "homepage ex_foo = ''http://foo.example''"
  by (simp_all add: ex_foo_def)

lemma ex_foo_present: "check_indicator_presence ex_lib ex_foo ex_resource = Inr True"
  by (simp add: check_indicator_presence_def bind_err_def ex_foo_routed_resource ex_MATCHERS
      ex_url_matcher_def ex_body_matcher_def ex_resource_url py_any_def)

lemma ex_foo_name: "get_plugin_name ex_lib ex_foo ex_resource = Inr ''foo-core''"
  by (simp add: get_plugin_name_def bind_err_def ex_foo_routed_resource ex_MATCHERS
      ex_url_matcher_def ex_body_matcher_def ex_resource_url truthy_def ex_foo_fields)

lemma ex_foo_blank_fields:
  "name ex_foo_blank = name ex_foo" "homepage ex_foo_blank = homepage ex_foo"
  "is_modular ex_foo_blank = is_modular ex_foo" "hints ex_foo_blank = hints ex_foo"
  "get_grouped_matchers ex_foo_blank = get_grouped_matchers ex_foo"
  by (simp_all add: ex_foo_blank_def)

lemma ex_foo_blank_same:
  "check_indicator_presence ex_lib ex_foo_blank ex_resource
     = check_indicator_presence ex_lib ex_foo ex_resource"
  "get_plugin_name ex_lib ex_foo_blank ex_resource = get_plugin_name ex_lib ex_foo ex_resource"
  "get_hints ex_registry ''https://a/'' ex_foo_blank = get_hints ex_registry ''https://a/'' ex_foo"
  "homepage ex_foo_blank = homepage ex_foo"
  unfolding check_indicator_presence_def get_plugin_name_def get_matchers_for_entry_def
    get_hints_def hint_names_def ex_foo_blank_fields
  by (rule refl)+

lemma ex_digest:
  "sha256_hexdigest ex_lib (encode_utf8 ex_lib (content_text ex_resource))
     = ''4bf26fc9ade6cf51e78d51c62811bbf1a7fccd772efbdfa2322e5cd8838b08c7''"
  by (simp add: ex_lib_def ex_sha256_def ex_resource_def ex_asset_def set_entry_type_def)

lemma ex_contains:
  "str_contains ''app.js'' ''https://a/app.js''" "\<not> str_contains ''other.js'' ''https://a/app.js''"
  by simp_all

lemma ex_foo_lookup: "get_version_via_file_hashes ex_lib ex_foo ex_resource = Some ''1.0''"
  by (simp add: get_version_via_file_hashes_def file_hash_table_def ex_foo_def get_url_def
      get_response_body_def ex_resource_url ex_digest ex_contains)

lemma ex_foo_blank_lookup: "get_version_via_file_hashes ex_lib ex_foo_blank ex_resource = Some []"
  by (simp add: get_version_via_file_hashes_def file_hash_table_def ex_foo_def ex_foo_blank_def
      get_url_def get_response_body_def ex_resource_url ex_digest ex_contains)

text \<open>
  Claim C5, as stated, fails: the plugin's file-hash table records the digest of the
  entry's body under the empty version string, for a URL substring that occurs in the
  entry's URL. The lookup returns that version, and the pipeline emits two INDICATOR
  Results and no VERSION Result.
\<close>

theorem C5_counterexample:
  "check_indicator_presence ex_lib ex_foo_blank ex_resource = Inr True
   \<and> get_version_via_file_hashes ex_lib ex_foo_blank ex_resource = Some []
   \<and> indicator_plugin_body ex_lib ex_registry ''https://a/'' ex_resource ex_foo_blank ([], [])
       = Inr ([\<lparr>result_name = ''foo-core'', result_version = None,
                 result_homepage = ''http://foo.example'', result_from_url = ''https://a/app.js'',
                 result_type = INDICATOR_TYPE\<rparr>,
               \<lparr>result_name = ''foo-core'', result_version = None,
                 result_homepage = ''http://foo.example'', result_from_url = ''https://a/app.js'',
                 result_type = INDICATOR_TYPE\<rparr>],
              [\<lparr>result_name = ''bar'', result_version = None,
                 result_homepage = ''http://bar.example'', result_from_url = ''https://a/'',
                 result_type = HINT_TYPE\<rparr>])"
  by (simp add: indicator_plugin_body_def bind_err_def ex_foo_blank_same ex_foo_present
      ex_foo_name ex_foo_blank_lookup ex_foo_hints truthy_def Result_def get_url_def
      ex_resource_url ex_foo_fields)

text \<open>C5 at a plugin whose second file-hash pair matches the entry's URL and body.\<close>

theorem C5_file_hashes_witness:
  "get_version_via_file_hashes ex_lib ex_foo ex_resource = Some ''1.0''
   \<and> indicator_plugin_body ex_lib ex_registry ''https://a/'' ex_resource ex_foo ([], [])
       = Inr ([\<lparr>result_name = ''foo-core'', result_version = None,
                 result_homepage = ''http://foo.example'', result_from_url = ''https://a/app.js'',
                 result_type = INDICATOR_TYPE\<rparr>,
               \<lparr>result_name = ''foo-core'', result_version = Some ''1.0'',
                 result_homepage = ''http://foo.example'', result_from_url = ''https://a/app.js'',
                 result_type = VERSION_TYPE\<rparr>],
              [\<lparr>result_name = ''bar'', result_version = None,
                 result_homepage = ''http://bar.example'', result_from_url = ''https://a/'',
                 result_type = HINT_TYPE\<rparr>])"
  using C5_file_hashes [where l = ex_lib and plugin = ex_foo and e = ex_resource
      and n = "''foo-core''" and registry = ex_registry and requested_url = "''https://a/''"
      and results = "[]" and queued = "[]"]
    ex_foo_present ex_foo_name ex_foo_lookup
  by (simp add: ex_foo_hints get_url_def ex_resource_url ex_foo_fields)

lemma ex_generic_present: "check_indicator_presence ex_lib ex_generic ex_resource = Inr True"
  by (simp add: check_indicator_presence_def bind_err_def get_matchers_for_entry_def
      get_entry_type_def ex_resource_type ex_generic_def remove_group_def ex_MATCHERS
      ex_url_matcher_def ex_resource_url py_any_def)

lemma ex_generic_data:
  "get_information ex_generic e ''name'' = Some ''Foo CMS''"
  "get_information ex_generic e ''homepage'' = Some ''http://cms.example''"
  by (simp_all add: ex_generic_def)

lemma ex_registry_fields:
  "with_version_matchers ex_registry = [ex_foo]" "with_indicator_matchers ex_registry = [ex_foo]"
  "with_generic_matchers ex_registry = [ex_generic]"
  "get ex_registry ''bar'' = Some ex_bar" "get ex_registry ''missing'' = None"
  by (simp_all add: ex_registry_def)

lemma ex_pipeline:
  "for_each (process_entry ex_lib ex_registry ''https://a/'') [ex_resource] ([], [])
     = Inr ([\<lparr>result_name = ''foo-core'', result_version = Some ''3.2.1'',
               result_homepage = ''http://foo.example'', result_from_url = ''https://a/app.js'',
               result_type = VERSION_TYPE\<rparr>,
             \<lparr>result_name = ''foo-core'', result_version = None,
               result_homepage = ''http://foo.example'', result_from_url = ''https://a/app.js'',
               result_type = INDICATOR_TYPE\<rparr>,
             \<lparr>result_name = ''foo-core'', result_version = Some ''1.0'',
               result_homepage = ''http://foo.example'', result_from_url = ''https://a/app.js'',
               result_type = VERSION_TYPE\<rparr>,
             \<lparr>result_name = ''Foo CMS'', result_version = None,
               result_homepage = ''http://cms.example'', result_from_url = ''https://a/app.js'',
               result_type = GENERIC_TYPE\<rparr>],
            [\<lparr>result_name = ''bar'', result_version = None,
               result_homepage = ''http://bar.example'', result_from_url = ''https://a/'',
               result_type = HINT_TYPE\<rparr>,
             \<lparr>result_name = ''bar'', result_version = None,
               result_homepage = ''http://bar.example'', result_from_url = ''https://a/'',
               result_type = HINT_TYPE\<rparr>])"
  by (simp add: process_entry_def bind_err_def ex_registry_fields version_plugin_body_def
      indicator_plugin_body_def generic_plugin_body_def ex_foo_version ex_foo_name ex_foo_hints
      ex_foo_present ex_foo_lookup ex_generic_present ex_generic_data truthy_def Result_def
      get_url_def ex_resource_url ex_foo_fields)

text \<open>C6 at a plugin hinting a registered and an unregistered name, and at a run of
  \<open>process_har\<close> where the plugin is detected twice.\<close>

theorem C6_hints_witness:
  "get_hints ex_registry ''https://a/'' ex_foo
     = [\<lparr>result_name = ''bar'', result_version = None, result_homepage = ''http://bar.example'',
          result_from_url = ''https://a/'', result_type = HINT_TYPE\<rparr>]
   \<and> process_har ex_lib ex_registry ''https://a/'' [ex_resource] []
     = Inr [\<lparr>result_name = ''foo-core'', result_version = Some ''3.2.1'',
              result_homepage = ''http://foo.example'', result_from_url = ''https://a/app.js'',
              result_type = VERSION_TYPE\<rparr>,
            \<lparr>result_name = ''foo-core'', result_version = None,
              result_homepage = ''http://foo.example'', result_from_url = ''https://a/app.js'',
              result_type = INDICATOR_TYPE\<rparr>,
            \<lparr>result_name = ''foo-core'', result_version = Some ''1.0'',
              result_homepage = ''http://foo.example'', result_from_url = ''https://a/app.js'',
              result_type = VERSION_TYPE\<rparr>,
            \<lparr>result_name = ''Foo CMS'', result_version = None,
              result_homepage = ''http://cms.example'', result_from_url = ''https://a/app.js'',
              result_type = GENERIC_TYPE\<rparr>,
            \<lparr>result_name = ''bar'', result_version = None,
              result_homepage = ''http://bar.example'', result_from_url = ''https://a/'',
              result_type = HINT_TYPE\<rparr>,
            \<lparr>result_name = ''bar'', result_version = None,
              result_homepage = ''http://bar.example'', result_from_url = ''https://a/'',
              result_type = HINT_TYPE\<rparr>]"
proof -
  have h: "hint_names ex_foo = [''bar'', ''missing'']"
    by (simp add: hint_names_def ex_foo_def)
  have b: "name ex_bar = ''bar''" "homepage ex_bar = ''http://bar.example''"
    by (simp_all add: ex_bar_def)
  show ?thesis
    using C6_hints [where registry = ex_registry and requested_url = "''https://a/''"
        and plugin = ex_foo and l = ex_lib and entries = "[ex_resource]" and results = "[]"]
      ex_pipeline
    by (simp add: h b ex_registry_fields)
qed

text \<open>C8 at a generic plugin present on an entry, and at a plugin that is not present.\<close>

theorem C8_generic_witness:
  "generic_plugin_body ex_lib ex_resource ex_generic ([], [])
     = Inr ([\<lparr>result_name = ''Foo CMS'', result_version = None,
               result_homepage = ''http://cms.example'', result_from_url = ''https://a/app.js'',
               result_type = GENERIC_TYPE\<rparr>], [])
   \<and> generic_plugin_body ex_lib ex_main ex_foo ([], []) = Inr ([], [])"
proof -
  have d: "get_information ex_generic ex_resource ''name'' = Some ''Foo CMS''"
    "get_information ex_generic ex_resource ''homepage'' = Some ''http://cms.example''"
    by (simp_all add: ex_generic_def)
  have a: "check_indicator_presence ex_lib ex_foo ex_main = Inr False"
    by (simp add: check_indicator_presence_def bind_err_def ex_foo_routed_main ex_MATCHERS
        ex_no_matcher_def py_any_def)
  show ?thesis
    using C8_generic [where l = ex_lib and plugin = ex_generic and e = ex_resource
        and n = "''Foo CMS''" and h = "''http://cms.example''" and results = "[]" and queued = "[]"]
      C8_generic [where l = ex_lib and plugin = ex_foo and e = ex_main
        and results = "[]" and queued = "[]"]
      ex_generic_present d a
    by (simp add: get_url_def ex_resource_url)
qed

text \<open>C10 at one registered software, and at a list with an unregistered name.\<close>

theorem C10_process_from_splash_witness:
  "process_from_splash ex_registry ''https://a/''
     [\<lparr>software_name = ''foo'', software_version = ''2.1.0''\<rparr>] []
     = Inr [\<lparr>result_name = ''foo'', result_version = Some ''2.1.0'',
              result_homepage = ''http://foo.example'', result_from_url = ''https://a/'',
              result_type = VERSION_TYPE\<rparr>,
            \<lparr>result_name = ''bar'', result_version = None,
              result_homepage = ''http://bar.example'', result_from_url = ''https://a/'',
              result_type = HINT_TYPE\<rparr>]
   \<and> process_from_splash ex_registry ''https://a/''
       [\<lparr>software_name = ''foo'', software_version = ''2.1.0''\<rparr>,
        \<lparr>software_name = ''unknown'', software_version = ''1''\<rparr>] []
     = Inl AttributeError"
  using C10_process_from_splash [of ex_registry "''https://a/''"
      "[\<lparr>software_name = ''foo'', software_version = ''2.1.0''\<rparr>]" "[]"]
    C10_process_from_splash [of ex_registry "''https://a/''"
      "[\<lparr>software_name = ''foo'', software_version = ''2.1.0''\<rparr>,
        \<lparr>software_name = ''unknown'', software_version = ''1''\<rparr>]" "[]"]
  by (simp add: splash_results_def hint_results_def hint_names_def ex_registry_def ex_foo_def
      ex_bar_def)

end
